theory Spec2Isabelle
  imports Main
begin

section \<open>Data model of \<open>bip/hexrays/cnode.py\<close>\<close>

text \<open>
  The exceptions the module raises (\<open>ValueError\<close> in \<open>GetCNode\<close>, \<open>RuntimeError\<close> in
  \<open>parent\<close>, \<open>AssertionError\<close> in \<open>buildCNode\<close>) and those that Python raises in it:
  \<open>AttributeError\<close> when an object has not the attribute read, \<open>KeyError\<close> when a
  dictionary has not the key read, \<open>TypeError\<close> when an object does not support the
  operation applied to it. An exception is modelled by its class: its message is left out.
\<close>

datatype error =
  ValueError | RuntimeError | AssertionError | AttributeError | KeyError | TypeError

text \<open>
  The host item (\<open>citem_t\<close>), reduced to the fields the module reads: its address \<open>ea\<close>,
  its discriminant \<open>op\<close> and, for a unary expression, its operand \<open>x\<close>.
\<close>

datatype citem = CItem (citem_ea: int) (citem_op: int) (citem_x: "citem option")

text \<open>
  An object of class \<open>CNode\<close> or of one of its subclasses: its Python class and the three
  attributes \<open>_citem\<close>, \<open>_hxcfunc\<close> and \<open>_parent\<close> that \<open>CNode.__init__\<close> stores
  (\<open>_cexpr\<close> and \<open>_cinsn\<close> of the two subclasses alias \<open>_citem\<close>). A parent exists before
  its children are built and the attributes are never assigned again, so a node is a value.
\<close>

datatype ('c, 'f) cnode =
  CNode (self_class: 'c) (self_citem: citem) (self_hxcfunc: 'f)
        (self_parent: "('c, 'f) cnode option")

text \<open>
  A method call returns its result, or the exception it raises, and the receiver as the
  call leaves it.
\<close>

type_synonym ('a, 'o) call = "(error + 'a) \<times> 'o"

text \<open>\<open>cl(citem, hxcfunc, parent)\<close>: a new instance of \<open>cl\<close>, initialised by \<open>CNode.__init__\<close>.\<close>

definition CNode_init ::
  "'c \<Rightarrow> citem \<Rightarrow> 'f \<Rightarrow> ('c, 'f) cnode option \<Rightarrow> ('c, 'f) cnode" where
  "CNode_init cl citem hxcfunc parent = CNode cl citem hxcfunc parent"

text \<open>
  Modelled from the spec: \<open>AbstractCItem.ea\<close> (\<open>astnode.py\<close> is not part of the sources)
  exposes the field \<open>ea\<close> of the host item the wrapper received.
\<close>

definition ea :: "('c, 'f) cnode \<Rightarrow> int" where
  "ea self = citem_ea (self_citem self)"

subsection \<open>The attributes of an instance\<close>








subsection \<open>\<open>GetCNode\<close>\<close>

text \<open>
  What \<open>GetCNode\<close> reads of the Python runtime: the class \<open>CNode\<close>; the table of
  \<open>__subclasses__()\<close>, the direct subclasses of every class that has some (the loaded
  classes are finitely many); the class method \<open>is_handling_type\<close>, which \<open>astnode.py\<close>
  defines and the sources do not include; and the element that \<open>set.pop()\<close> removes, which
  Python leaves arbitrary: \<open>pop_index\<close> picks it, from the two sets of the loop, and every
  property below holds for every such choice. \<open>is_cast\<close> tells the classes on whose
  instances the attribute \<open>ignore_cast\<close> resolves to the implementation registered for
  \<open>CNodeExprCast\<close>: that class, generated by \<open>buildCNode\<close>, and the classes that inherit it.
\<close>

record 'c class_env =
  CNode_cls :: 'c
  subclasses :: "('c \<times> 'c list) list"
  is_handling_type :: "'c \<Rightarrow> int \<Rightarrow> bool"
  pop_index :: "'c list \<Rightarrow> 'c list \<Rightarrow> nat"
  is_cast :: "'c \<Rightarrow> bool"

text \<open>\<open>cl.__subclasses__()\<close>.\<close>

definition class_subclasses :: "'c class_env \<Rightarrow> 'c \<Rightarrow> 'c list" where
  "class_subclasses E cl = (case map_of (subclasses E) cl of None \<Rightarrow> [] | Some l \<Rightarrow> l)"

text \<open>
  The sets \<open>done\<close> and \<open>todo\<close> are lists read as sets. \<open>set_pop\<close> is the element that
  \<open>todo.pop()\<close> returns from a set that is not empty; the loop then removes it from \<open>todo\<close>.
\<close>

definition set_pop :: "'c class_env \<Rightarrow> 'c list \<Rightarrow> 'c list \<Rightarrow> 'c" where
  "set_pop E done todo = todo ! (pop_index E done todo mod length todo)"

function GetCNode_loop ::
  "'c class_env \<Rightarrow> citem \<Rightarrow> 'f \<Rightarrow> ('c, 'f) cnode option \<Rightarrow> 'c list \<Rightarrow> 'c list
     \<Rightarrow> error + ('c, 'f) cnode" where
  "GetCNode_loop E citem hxcfunc parent done todo =
     (if length todo \<noteq> 0 then
        (let cl = set_pop E done todo;
             todo1 = removeAll cl todo
         in if cl \<in> set done then GetCNode_loop E citem hxcfunc parent done todo1
            else if is_handling_type E cl (citem_op citem)
              then Inr (CNode_init cl citem hxcfunc parent)
            else GetCNode_loop E citem hxcfunc parent
                   (List.insert cl done) (List.union (class_subclasses E cl) todo1))
      else Inl ValueError)"
  by pat_completeness auto
termination
proof (relation "measures
   [\<lambda>(E, citem, hxcfunc, parent, done, todo).
       card ((set todo \<union> \<Union> (set ` snd ` set (subclasses E))) - set done),
    \<lambda>(E, citem, hxcfunc, parent, done, todo). length todo]", goal_cases)
  case 1
  then show ?case by simp
next
  case (2 E citem hxcfunc parent dn todo cl todo1)
  then have "todo \<noteq> []" by simp
  then have "cl \<in> set todo" using 2 by (simp add: set_pop_def)
  then have "length todo1 < length todo"
    using 2 by (simp add: length_removeAll_less)
  moreover have "(set todo1 \<union> \<Union> (set ` snd ` set (subclasses E))) - set dn
     = (set todo \<union> \<Union> (set ` snd ` set (subclasses E))) - set dn"
    using 2 by auto
  ultimately show ?case by simp
next
  case (3 E citem hxcfunc parent dn todo cl todo1)
  let ?T = "\<Union> (set ` snd ` set (subclasses E))"
  from 3 have "todo \<noteq> []" by simp
  then have cl: "cl \<in> set todo" using 3 by (simp add: set_pop_def)
  have sub: "set (class_subclasses E cl) \<subseteq> ?T"
  proof (cases "map_of (subclasses E) cl")
    case None
    then show ?thesis by (simp add: class_subclasses_def)
  next
    case (Some l)
    then have "(cl, l) \<in> set (subclasses E)" by (rule map_of_SomeD)
    then have "set l \<subseteq> ?T" by force
    with Some show ?thesis by (simp add: class_subclasses_def)
  qed
  have fin: "finite ((set todo \<union> ?T) - set dn)" by simp
  have "(set (List.union (class_subclasses E cl) todo1) \<union> ?T) - set (List.insert cl dn)
      \<subseteq> ((set todo \<union> ?T) - set dn) - {cl}"
    using 3 sub by auto
  moreover have "cl \<in> (set todo \<union> ?T) - set dn" using cl 3 by simp
  ultimately have "(set (List.union (class_subclasses E cl) todo1) \<union> ?T) - set (List.insert cl dn)
      \<subset> (set todo \<union> ?T) - set dn" by blast
  then have "card ((set (List.union (class_subclasses E cl) todo1) \<union> ?T) - set (List.insert cl dn))
      < card ((set todo \<union> ?T) - set dn)"
    using fin by (rule psubset_card_mono[rotated])
  then show ?case by simp
qed

declare GetCNode_loop.simps [simp del]

definition GetCNode ::
  "'c class_env \<Rightarrow> citem \<Rightarrow> 'f \<Rightarrow> ('c, 'f) cnode option \<Rightarrow> error + ('c, 'f) cnode" where
  "GetCNode E citem hxcfunc parent =
     GetCNode_loop E citem hxcfunc parent [] (remdups (class_subclasses E (CNode_cls E)))"

text \<open>
  The transitive subclasses of a class, as the claim on \<open>GetCNode\<close> words them: the classes
  reached from it by one or more steps of \<open>__subclasses__()\<close>.
\<close>

definition transitive_subclasses :: "'c class_env \<Rightarrow> 'c \<Rightarrow> 'c set" where
  "transitive_subclasses E c = {d. (c, d) \<in> {(a, b). b \<in> set (class_subclasses E a)}\<^sup>+}"

text \<open>The invariant of the loop of \<open>GetCNode\<close>, for an item of discriminant \<open>t\<close>.\<close>

definition GetCNode_inv :: "'c class_env \<Rightarrow> int \<Rightarrow> 'c list \<Rightarrow> 'c list \<Rightarrow> bool" where
  "GetCNode_inv E t dn todo =
     (set todo \<subseteq> transitive_subclasses E (CNode_cls E)
      \<and> set dn \<subseteq> transitive_subclasses E (CNode_cls E)
      \<and> (\<forall>c \<in> set dn. \<not> is_handling_type E c t)
      \<and> set (class_subclasses E (CNode_cls E)) \<subseteq> set dn \<union> set todo
      \<and> (\<forall>c \<in> set dn. set (class_subclasses E c) \<subseteq> set dn \<union> set todo))"

text \<open>
  A small hierarchy to run \<open>GetCNode\<close> on: class 0 stands for \<open>CNode\<close>, 1 and 2 for
  \<open>CNodeExpr\<close> and \<open>CNodeStmt\<close>, 3 for \<open>CNodeExprCast\<close>, handling the item type 48, 4 for
  another expression class, handling the item type 65, and 5 for a statement class, handling
  the item type 73.
\<close>

definition example_env :: "nat class_env" where
  "example_env =
     \<lparr>CNode_cls = 0,
      subclasses = [(0, [1, 2]), (1, [3, 4]), (2, [5])],
      is_handling_type = (\<lambda>cl t. (cl = 3 \<and> t = 48) \<or> (cl = 4 \<and> t = 65) \<or> (cl = 5 \<and> t = 73)),
      pop_index = (\<lambda>done todo. length done),
      is_cast = (\<lambda>cl. cl = 3)\<rparr>"

subsection \<open>\<open>closest_ea\<close>\<close>

text \<open>The \<open>while\<close> loop of \<open>closest_ea\<close>; \<open>BADADDR\<close> is the host constant \<open>idc.BADADDR\<close>.\<close>

function closest_ea_loop :: "int \<Rightarrow> int \<Rightarrow> ('c, 'f) cnode option \<Rightarrow> int" where
  "closest_ea_loop BADADDR ea_v None = ea_v"
| "closest_ea_loop BADADDR ea_v (Some obj) =
     (if ea_v = BADADDR then closest_ea_loop BADADDR (ea obj) (self_parent obj) else ea_v)"
  by pat_completeness auto
termination
proof (relation "measure (\<lambda>(BADADDR, ea_v, obj). size_option size obj)")
  fix BADADDR ea_v :: int and obj :: "('c, 'f) cnode"
  show "((BADADDR, ea obj, self_parent obj), (BADADDR, ea_v, Some obj))
          \<in> measure (\<lambda>(BADADDR, ea_v, obj). size_option size obj)"
    by (cases obj) (auto split: option.splits)
qed simp

definition closest_ea :: "int \<Rightarrow> ('c, 'f) cnode \<Rightarrow> (int option, ('c, 'f) cnode) call" where
  "closest_ea BADADDR self =
     (let ea_v = closest_ea_loop BADADDR (ea self) (self_parent self)
      in if ea_v = BADADDR then (Inr None, self) else (Inr (Some ea_v), self))"

subsection \<open>Access properties\<close>

definition has_parent :: "('c, 'f) cnode \<Rightarrow> (bool, ('c, 'f) cnode) call" where
  "has_parent self = (Inr (self_parent self \<noteq> None), self)"

definition parent :: "('c, 'f) cnode \<Rightarrow> (('c, 'f) cnode, ('c, 'f) cnode) call" where
  "parent self =
     (case self_parent self of
        None \<Rightarrow> (Inl RuntimeError, self)
      | Some p \<Rightarrow> (Inr p, self))"

definition cfunc :: "('c, 'f) cnode \<Rightarrow> ('f, ('c, 'f) cnode) call" where
  "cfunc self = (Inr (self_hxcfunc self), self)"

text \<open>
  The parent chain of a node, as the claims on \<open>closest_ea\<close> word it: the node itself, then
  the nodes reached by following \<open>_parent\<close> up to the root.
\<close>

fun parent_chain :: "('c, 'f) cnode \<Rightarrow> ('c, 'f) cnode list" where
  "parent_chain (CNode cl ci f None) = [CNode cl ci f None]"
| "parent_chain (CNode cl ci f (Some p)) = CNode cl ci f (Some p) # parent_chain p"

subsection \<open>\<open>_createChild\<close> and \<open>ignore_cast\<close>\<close>

definition createChild ::
  "'c class_env \<Rightarrow> ('c, 'f) cnode \<Rightarrow> citem \<Rightarrow> (('c, 'f) cnode, ('c, 'f) cnode) call" where
  "createChild E self citem = (GetCNode E citem (self_hxcfunc self) (Some self), self)"

text \<open>
  Modelled from the spec: the property \<open>operand\<close> of a unary expression, which
  \<open>hx_citem.py\<close> defines and the sources do not include. It builds the child node with
  \<open>_createChild\<close>, as the docstring of \<open>_createChild\<close> requires, from the field \<open>x\<close> of the
  host item; reading \<open>op\<close> on a missing operand raises \<open>AttributeError\<close>.
\<close>

definition operand ::
  "'c class_env \<Rightarrow> ('c, 'f) cnode \<Rightarrow> (('c, 'f) cnode, ('c, 'f) cnode) call" where
  "operand E self =
     (case citem_x (self_citem self) of
        None \<Rightarrow> (Inl AttributeError, self)
      | Some c \<Rightarrow> createChild E self c)"

text \<open>
  \<open>ignore_cast\<close>: the implementation of \<open>CNode\<close> returns \<open>self\<close>, the one registered for
  \<open>CNodeExprCast\<close> returns \<open>self.operand.ignore_cast\<close>.
\<close>

function ignore_cast ::
  "'c class_env \<Rightarrow> ('c, 'f) cnode \<Rightarrow> (('c, 'f) cnode, ('c, 'f) cnode) call" where
  "ignore_cast E self =
     (if is_cast E (self_class self) then
        (case operand E self of
           (Inl e, self1) \<Rightarrow> (Inl e, self1)
         | (Inr child, self1) \<Rightarrow> (fst (ignore_cast E child), self1))
      else (Inr self, self))"
  by pat_completeness auto
termination
proof (relation "measure (\<lambda>(E, self). size (self_citem self))", goal_cases)
  case 1
  then show ?case by simp
next
  case (2 E self res self1 child)
  have built: "GetCNode_loop E c f p dn todo = Inr n \<Longrightarrow> self_citem n = c"
    for c :: citem and f :: 'b and p dn todo n
  proof (induction E c f p dn todo rule: GetCNode_loop.induct)
    case (1 E citem hxcfunc par dn todo)
    define cl where "cl = set_pop E dn todo"
    have step: "GetCNode_loop E citem hxcfunc par dn todo =
        (if todo = [] then Inl ValueError
         else if cl \<in> set dn then GetCNode_loop E citem hxcfunc par dn (removeAll cl todo)
         else if is_handling_type E cl (citem_op citem)
           then Inr (CNode_init cl citem hxcfunc par)
         else GetCNode_loop E citem hxcfunc par (List.insert cl dn)
                (List.union (class_subclasses E cl) (removeAll cl todo)))"
      by (subst GetCNode_loop.simps) (simp add: cl_def Let_def)
    consider "todo = []"
      | "todo \<noteq> []" "cl \<in> set dn"
      | "todo \<noteq> []" "cl \<notin> set dn" "is_handling_type E cl (citem_op citem)"
      | "todo \<noteq> []" "cl \<notin> set dn" "\<not> is_handling_type E cl (citem_op citem)"
      by blast
    then show ?case
    proof cases
      case 1
      with "1.prems" step show ?thesis by simp
    next
      case 2
      with "1.prems" step
      have "GetCNode_loop E citem hxcfunc par dn (removeAll cl todo) = Inr n" by simp
      with 2 show ?thesis
        using "1.IH"(1) [OF _ cl_def refl] by simp
    next
      case 3
      with "1.prems" step show ?thesis by (auto simp: CNode_init_def)
    next
      case 4
      with "1.prems" step
      have "GetCNode_loop E citem hxcfunc par (List.insert cl dn)
              (List.union (class_subclasses E cl) (removeAll cl todo)) = Inr n" by simp
      with 4 show ?thesis
        using "1.IH"(2) [OF _ cl_def refl] by simp
    qed
  qed
  from 2 obtain c where c: "citem_x (self_citem self) = Some c"
    and child: "GetCNode E c (self_hxcfunc self) (Some self) = Inr child"
    by (auto simp: operand_def createChild_def split: option.splits)
  from child have "self_citem child = c"
    unfolding GetCNode_def by (rule built)
  moreover have "size c < size (self_citem self)"
    using c by (cases "self_citem self") simp
  ultimately show ?case by simp
qed

declare ignore_cast.simps [simp del]

subsection \<open>Visitor methods\<close>

text \<open>
  Modelled from the spec: \<open>cnode_visitor.visit_dfs_cnode\<close>, which the sources do not
  include. As \<open>visit_cnode\<close> documents it, it calls the callback once on the node and on
  every node below it, one after the other. The sequence of these nodes is the parameter
  \<open>dfs\<close>; the callback acts on the state \<open>s\<close> of its closure.
\<close>

definition visit_dfs_cnode ::
  "(('c, 'f) cnode \<Rightarrow> ('c, 'f) cnode list) \<Rightarrow> ('c, 'f) cnode
     \<Rightarrow> (('c, 'f) cnode \<Rightarrow> 's \<Rightarrow> 's) \<Rightarrow> 's \<Rightarrow> 's" where
  "visit_dfs_cnode dfs cnode callback s = fold callback (dfs cnode) s"

text \<open>\<open>visit_cnode\<close> returns \<open>None\<close>; the model returns the closure's state beside the call.\<close>

definition visit_cnode ::
  "(('c, 'f) cnode \<Rightarrow> ('c, 'f) cnode list) \<Rightarrow> ('c, 'f) cnode
     \<Rightarrow> (('c, 'f) cnode \<Rightarrow> 's \<Rightarrow> 's) \<Rightarrow> 's \<Rightarrow> (unit, ('c, 'f) cnode) call \<times> 's" where
  "visit_cnode dfs self callback s = ((Inr (), self), visit_dfs_cnode dfs self callback s)"

text \<open>The closure \<open>_app_filt\<close> of \<open>get_cnode_filter\<close>, acting on the list \<open>l\<close>.\<close>

definition app_filt ::
  "(('c, 'f) cnode \<Rightarrow> bool) \<Rightarrow> ('c, 'f) cnode \<Rightarrow> ('c, 'f) cnode list \<Rightarrow> ('c, 'f) cnode list" where
  "app_filt cb_filter cn l = (if cb_filter cn then l @ [cn] else l)"

definition get_cnode_filter ::
  "(('c, 'f) cnode \<Rightarrow> ('c, 'f) cnode list) \<Rightarrow> ('c, 'f) cnode \<Rightarrow> (('c, 'f) cnode \<Rightarrow> bool)
     \<Rightarrow> (('c, 'f) cnode list, ('c, 'f) cnode) call" where
  "get_cnode_filter dfs self cb_filter =
     (let l = [] in
      case visit_cnode dfs self (app_filt cb_filter) l of
        ((Inl e, self1), l) \<Rightarrow> (Inl e, self1)
      | ((Inr u, self1), l) \<Rightarrow> (Inr l, self1))"

text \<open>
  The nodes visited by \<open>n.visit_cnode\<close>, as the claim on \<open>get_cnode_filter\<close> words them:
  the nodes the callback is called on, in the order of the calls, which a callback that
  records its argument collects.
\<close>

definition visited_nodes ::
  "(('c, 'f) cnode \<Rightarrow> ('c, 'f) cnode list) \<Rightarrow> ('c, 'f) cnode \<Rightarrow> ('c, 'f) cnode list" where
  "visited_nodes dfs n = snd (visit_cnode dfs n (\<lambda>cn l. l @ [cn]) [])"

section \<open>Class generation: \<open>addCNodeMethod\<close> and \<open>buildCNode\<close>\<close>

text \<open>
  The Python objects that class generation handles: strings, functions (with their
  \<open>__name__\<close> and an identity), properties (with their getter \<open>fget\<close>), the descriptors
  of the members that \<open>__slots__\<close> declares (with their \<open>__name__\<close>), classes (a reference
  into the heap of class objects) and \<open>None\<close>.
\<close>

datatype pyobj =
  Str string
  | Function string nat
  | Property pyobj
  | Member string
  | ClassRef nat
  | PyNone

text \<open>
  A class object: its \<open>__name__\<close>, its \<open>__bases__\<close>, its \<open>__dict__\<close> and the list that
  \<open>__subclasses__()\<close> returns. Of \<open>__dict__\<close> the model keeps the entries that the class
  statement or the call of \<open>type\<close> is given, not the descriptors \<open>__dict__\<close> and
  \<open>__weakref__\<close> that the interpreter adds on its own.
\<close>

record pyclass =
  cls_name :: string
  cls_bases :: "nat list"
  cls_dict :: "string \<rightharpoonup> pyobj"
  cls_subclasses :: "nat list"

text \<open>
  The state that class generation reads and writes: the heap of class objects, where the
  classes created so far are those below \<open>next_class\<close>; the two dictionaries that the
  module creates as \<open>_citem2cnode\<close> and \<open>_cnodeMethods\<close>; the string that it has as
  \<open>__name__\<close>; and \<open>globals\<close>, the global names of the module that are bound to a class,
  each with its class. Binding a global name to a class is all that the module does to
  its global names, so a name that \<open>globals\<close> does not hold is bound as the load of the
  module left it, or is the builtin of that name: \<open>_citem2cnode\<close> and \<open>_cnodeMethods\<close> to
  the two dictionaries, \<open>__name__\<close> to the string, \<open>dict\<close>, \<open>type\<close>, \<open>tuple\<close>, \<open>globals\<close>,
  \<open>isinstance\<close>, \<open>property\<close> and \<open>AssertionError\<close> to Python's own objects.
\<close>

record py_state =
  classes :: "nat \<Rightarrow> pyclass"
  next_class :: nat
  cnode_module :: string
  citem2cnode :: "nat \<rightharpoonup> nat"
  cnodeMethods :: "string \<rightharpoonup> (string \<times> pyobj) list"
  globals :: "string \<rightharpoonup> nat"

text \<open>
  What the module takes from the interpreter: the class \<open>object\<close>, and the checks of
  \<open>type(name, bases, attr)\<close>, which raises an exception of its own on arguments it
  rejects (a base given twice, bases without a consistent method resolution order, a
  name of \<open>__slots__\<close> that is also an attribute) and creates the class otherwise.
\<close>

record py_host =
  object_cls :: nat
  type_check :: "(nat \<Rightarrow> pyclass) \<Rightarrow> string \<Rightarrow> nat list \<Rightarrow> (string \<rightharpoonup> pyobj) \<Rightarrow> error option"

text \<open>
  Whether one of the names is bound to a class. Where the module calls a builtin by a
  name that is bound to a class, it calls the class, and what that call does is outside
  the model: on such a state the model of a function gives no result, \<open>None\<close>.
\<close>

definition shadowed :: "py_state \<Rightarrow> string list \<Rightarrow> bool" where
  "shadowed s names = list_ex (\<lambda>n. globals s n \<noteq> None) names"

text \<open>
  \<open>obj.__name__\<close>: functions, member descriptors and classes have a name, the other
  objects have none.
\<close>

fun obj_name :: "py_state \<Rightarrow> pyobj \<Rightarrow> error + string" where
  "obj_name s (Function n i) = Inr n"
| "obj_name s (Member n) = Inr n"
| "obj_name s (ClassRef c) = Inr (cls_name (classes s c))"
| "obj_name s (Str v) = Inl AttributeError"
| "obj_name s (Property g) = Inl AttributeError"
| "obj_name s PyNone = Inl AttributeError"

subsection \<open>\<open>addCNodeMethod\<close>\<close>

text \<open>
  The call \<open>addCNodeMethod(cnode_name, func_name)\<close> creates the entry of \<open>cnode_name\<close> in
  \<open>_cnodeMethods\<close> when there is none and returns the decorator \<open>_internal_addcnodemeth\<close>,
  which, applied to \<open>func\<close>, appends the pair of the chosen name and \<open>func\<close> to that entry
  and returns \<open>func\<close>. When the name \<open>_cnodeMethods\<close> is bound to a class, the test
  \<open>cnode_name not in _cnodeMethods\<close> and the subscription \<open>_cnodeMethods[cnode_name]\<close>
  raise \<open>TypeError\<close>.
\<close>

definition addCNodeMethod :: "py_state \<Rightarrow> string \<Rightarrow> (unit, py_state) call" where
  "addCNodeMethod s cnode_name =
     (if globals s ''_cnodeMethods'' \<noteq> None then (Inl TypeError, s)
      else if cnodeMethods s cnode_name = None
      then (Inr (), s\<lparr>cnodeMethods := (cnodeMethods s)(cnode_name \<mapsto> [])\<rparr>)
      else (Inr (), s))"

definition internal_addcnodemeth ::
  "string \<Rightarrow> string option \<Rightarrow> py_state \<Rightarrow> pyobj \<Rightarrow> (pyobj, py_state) call option" where
  "internal_addcnodemeth cnode_name func_name s func =
     (if func_name = None \<and> shadowed s [''isinstance'', ''property''] then None
      else Some
        (case (case func_name of
                 Some fn \<Rightarrow> Inr fn
               | None \<Rightarrow> (case func of
                            Property fget \<Rightarrow> obj_name s fget
                          | _ \<Rightarrow> obj_name s func)) of
           Inl e \<Rightarrow> (Inl e, s)
         | Inr fn \<Rightarrow>
             (if globals s ''_cnodeMethods'' \<noteq> None then (Inl TypeError, s)
              else case cnodeMethods s cnode_name of
                None \<Rightarrow> (Inl KeyError, s)
              | Some l \<Rightarrow>
                  (Inr func,
                   s\<lparr>cnodeMethods := (cnodeMethods s)(cnode_name \<mapsto> l @ [(fn, func)])\<rparr>))))"

text \<open>The decorator line \<open>@addCNodeMethod(cnode_name, func_name)\<close> above a definition of \<open>func\<close>.\<close>

definition decorate_addCNodeMethod ::
  "string \<Rightarrow> string option \<Rightarrow> py_state \<Rightarrow> pyobj \<Rightarrow> (pyobj, py_state) call option" where
  "decorate_addCNodeMethod cnode_name func_name s func =
     (case addCNodeMethod s cnode_name of
        (Inl e, s1) \<Rightarrow> Some (Inl e, s1)
      | (Inr u, s1) \<Rightarrow> internal_addcnodemeth cnode_name func_name s1 func)"

subsection \<open>\<open>buildCNode\<close>\<close>

text \<open>
  \<open>str.replace(old, new)\<close>: every occurrence of \<open>old\<close> found from left to right, without
  overlap, is replaced by \<open>new\<close>; for an empty \<open>old\<close>, \<open>new\<close> is put before every character
  and at the end.
\<close>

function replace :: "string \<Rightarrow> string \<Rightarrow> string \<Rightarrow> string" where
  "replace old new s =
     (if old = [] then new @ concat (map (\<lambda>c. c # new) s)
      else if s = [] then []
      else if take (length old) s = old then new @ replace old new (drop (length old) s)
      else hd s # replace old new (tl s))"
  by pat_completeness auto
termination
  by (relation "measure (\<lambda>(old, new, s). length s)") auto

declare replace.simps [simp del]

text \<open>The loop over \<open>cls.__bases__\<close> that fills the list \<open>lb\<close>.\<close>

fun base_classes :: "(nat \<rightharpoonup> nat) \<Rightarrow> nat list \<Rightarrow> nat list \<Rightarrow> error + nat list" where
  "base_classes c2c [] lb = Inr lb"
| "base_classes c2c (b # bs) lb =
     (case c2c b of
        None \<Rightarrow> Inl AssertionError
      | Some cn \<Rightarrow> base_classes c2c bs (lb @ [cn]))"

text \<open>The loop \<open>for na, f in _cnodeMethods[cn_cls_nm]: attr[na] = f\<close>.\<close>

definition install_methods ::
  "(string \<times> pyobj) list \<Rightarrow> (string \<rightharpoonup> pyobj) \<Rightarrow> (string \<rightharpoonup> pyobj)" where
  "install_methods l attr = fold (\<lambda>(na, f) a. a(na \<mapsto> f)) l attr"

text \<open>The text that \<open>buildCNode\<close> stores as \<open>__doc__\<close> of the class generated from \<open>cls\<close>.\<close>

definition cnode_doc :: "string \<Rightarrow> string" where
  "cnode_doc nm =
     ''Copy of :class:`'' @ nm @ ''` but which inherit from :class:`CNode`.''
     @ ''\<newline>Automatically created by :func:`~bip.hexrays.cnode.buildCNode`''"

text \<open>
  \<open>type(name, bases, attr)\<close>, when the name \<open>type\<close> is Python's: it raises what the check
  of the interpreter raises, or creates the next class object, with \<open>object\<close> as its base
  when no base is given, and adds it to the subclasses of each of its bases.
\<close>

definition type_new ::
  "py_host \<Rightarrow> py_state \<Rightarrow> string \<Rightarrow> nat list \<Rightarrow> (string \<rightharpoonup> pyobj) \<Rightarrow> (nat, py_state) call" where
  "type_new H s nm bases attr =
     (case type_check H (classes s) nm bases attr of
        Some e \<Rightarrow> (Inl e, s)
      | None \<Rightarrow>
          (let bases = (if bases = [] then [object_cls H] else bases);
               cn = next_class s;
               heap = (classes s)
                 (cn := \<lparr>cls_name = nm, cls_bases = bases, cls_dict = attr,
                         cls_subclasses = []\<rparr>);
               heap = fold (\<lambda>b h. h(b := (h b)\<lparr>cls_subclasses := cls_subclasses (h b) @ [cn]\<rparr>))
                        bases heap
           in (Inr cn, s\<lparr>classes := heap, next_class := Suc cn\<rparr>)))"

text \<open>
  \<open>buildCNode(cls)\<close>. The global names are read where the source reads them: the test
  \<open>cls in _citem2cnode\<close> raises \<open>TypeError\<close> when \<open>_citem2cnode\<close> is bound to a class, so
  does \<open>cn_cls_nm in _cnodeMethods\<close>, and so does the assignment \<open>_citem2cnode[cls] = cn_cls\<close>
  at the end, which comes after the new class has been bound to its name in the globals.
\<close>

definition buildCNode :: "py_host \<Rightarrow> py_state \<Rightarrow> nat \<Rightarrow> (nat, py_state) call option" where
  "buildCNode H s cls =
     (if shadowed s [''AssertionError'', ''dict'', ''type'', ''tuple'', ''globals''] then None
      else Some
        (if globals s ''_citem2cnode'' \<noteq> None then (Inl TypeError, s)
         else if citem2cnode s cls \<noteq> None then (Inl AssertionError, s)
         else case base_classes (citem2cnode s) (cls_bases (classes s cls)) [] of
           Inl e \<Rightarrow> (Inl e, s)
         | Inr lb \<Rightarrow>
             (let attr = cls_dict (classes s cls);
                  attr = attr(''__module__'' \<mapsto>
                           (case globals s ''__name__'' of
                              None \<Rightarrow> Str (cnode_module s)
                            | Some c \<Rightarrow> ClassRef c));
                  attr = attr(''__doc__'' \<mapsto> Str (cnode_doc (cls_name (classes s cls))));
                  cn_cls_nm = replace ''HxC'' ''CNode'' (cls_name (classes s cls))
              in if globals s ''_cnodeMethods'' \<noteq> None then (Inl TypeError, s)
                 else
                   (let attr = (case cnodeMethods s cn_cls_nm of
                                  None \<Rightarrow> attr
                                | Some l \<Rightarrow> install_methods l attr)
                    in case type_new H s cn_cls_nm lb attr of
                         (Inl e, s) \<Rightarrow> (Inl e, s)
                       | (Inr cn_cls, s) \<Rightarrow>
                           (let s = s\<lparr>globals := (globals s)(cn_cls_nm \<mapsto> cn_cls)\<rparr>
                            in if globals s ''_citem2cnode'' \<noteq> None then (Inl TypeError, s)
                               else (Inr cls,
                                     s\<lparr>citem2cnode := (citem2cnode s)(cls \<mapsto> cn_cls)\<rparr>))))))"

text \<open>
  The global names that \<open>buildCNode\<close> reads are bound as the load of the module left them:
  none of them is bound to a class.
\<close>

definition module_intact :: "py_state \<Rightarrow> bool" where
  "module_intact s =
     (\<not> shadowed s [''_citem2cnode'', ''_cnodeMethods'', ''__name__'', ''AssertionError'',
                     ''dict'', ''type'', ''tuple'', ''globals''])"

text \<open>
  An interpreter to run the examples on: \<open>object\<close> is class 0, and \<open>type\<close> rejects a base
  given twice, with \<open>TypeError\<close>, and a \<open>__slots__\<close> that names an attribute, with
  \<open>ValueError\<close>.
\<close>

definition example_host :: py_host where
  "example_host =
     \<lparr>object_cls = 0,
      type_check = (\<lambda>heap nm bases attr.
        if \<not> distinct bases then Some TypeError
        else case attr ''__slots__'' of
               Some (Str a) \<Rightarrow> (if attr a \<noteq> None then Some ValueError else None)
             | _ \<Rightarrow> None)\<rparr>"

text \<open>
  The module as it is loaded, before any class is generated. The classes 0 and 1 are
  \<open>object\<close> and \<open>AbstractCItem\<close>, 2, 3, 4 are \<open>HxCItem\<close>, \<open>HxCExpr\<close>, \<open>HxCStmt\<close>, and 5, 6, 7
  are \<open>CNode\<close>, \<open>CNodeExpr\<close>, \<open>CNodeStmt\<close>; \<open>_citem2cnode\<close> holds its three initial entries
  and \<open>_cnodeMethods\<close> is empty. The classes 8 to 12 are five classes derived from
  \<open>HxCExpr\<close> to generate a node class from: \<open>HxCExprCast\<close>, \<open>HxCExprVar\<close>, a class whose
  name holds \<open>HxC\<close> twice, a class named \<open>_citem2cnode\<close>, and a class with a slot \<open>x\<close>. The
  dictionaries of the classes 0 to 7, which no example reads, are left empty, and so are
  the classes \<open>HxCType\<close> and \<open>BipType\<close>, which the module imports and class generation
  never meets.
\<close>

definition module_loaded :: py_state where
  "module_loaded =
     \<lparr>classes = (\<lambda>c. \<lparr>cls_name = [], cls_bases = [], cls_dict = Map.empty, cls_subclasses = []\<rparr>)
        (0 := \<lparr>cls_name = ''object'', cls_bases = [], cls_dict = Map.empty,
               cls_subclasses = [1]\<rparr>,
         1 := \<lparr>cls_name = ''AbstractCItem'', cls_bases = [0], cls_dict = Map.empty,
               cls_subclasses = [2, 5]\<rparr>,
         2 := \<lparr>cls_name = ''HxCItem'', cls_bases = [1], cls_dict = Map.empty,
               cls_subclasses = [3, 4]\<rparr>,
         3 := \<lparr>cls_name = ''HxCExpr'', cls_bases = [2], cls_dict = Map.empty,
               cls_subclasses = [8, 9, 10, 11, 12]\<rparr>,
         4 := \<lparr>cls_name = ''HxCStmt'', cls_bases = [2], cls_dict = Map.empty,
               cls_subclasses = []\<rparr>,
         5 := \<lparr>cls_name = ''CNode'', cls_bases = [1], cls_dict = Map.empty,
               cls_subclasses = [6, 7]\<rparr>,
         6 := \<lparr>cls_name = ''CNodeExpr'', cls_bases = [5], cls_dict = Map.empty,
               cls_subclasses = []\<rparr>,
         7 := \<lparr>cls_name = ''CNodeStmt'', cls_bases = [5], cls_dict = Map.empty,
               cls_subclasses = []\<rparr>,
         8 := \<lparr>cls_name = ''HxCExprCast'', cls_bases = [3],
               cls_dict = [''TYPE_HANDLE'' \<mapsto> Str ''cot_cast'',
                           ''__module__'' \<mapsto> Str ''bip.hexrays.hx_citem''],
               cls_subclasses = []\<rparr>,
         9 := \<lparr>cls_name = ''HxCExprVar'', cls_bases = [3],
               cls_dict = [''lvar'' \<mapsto> Function ''lvar'' 0],
               cls_subclasses = []\<rparr>,
         10 := \<lparr>cls_name = ''HxCExprHxC'', cls_bases = [3], cls_dict = Map.empty,
                cls_subclasses = []\<rparr>,
         11 := \<lparr>cls_name = ''_citem2cnode'', cls_bases = [3], cls_dict = Map.empty,
                cls_subclasses = []\<rparr>,
         12 := \<lparr>cls_name = ''HxCExprSlot'', cls_bases = [3],
                cls_dict = [''__slots__'' \<mapsto> Str ''x'', ''x'' \<mapsto> Member ''x''],
                cls_subclasses = []\<rparr>),
      next_class = 13,
      cnode_module = ''bip.hexrays.cnode'',
      citem2cnode = [2 \<mapsto> 5, 3 \<mapsto> 6, 4 \<mapsto> 7],
      cnodeMethods = Map.empty,
      globals = [''AbstractCItem'' \<mapsto> 1, ''HxCItem'' \<mapsto> 2, ''HxCExpr'' \<mapsto> 3,
                 ''HxCStmt'' \<mapsto> 4, ''CNode'' \<mapsto> 5, ''CNodeExpr'' \<mapsto> 6,
                 ''CNodeStmt'' \<mapsto> 7]\<rparr>"

text \<open>
  The module after the three decorator lines at the end of \<open>cnode.py\<close>, which register
  the properties \<open>lvar\<close> and \<open>lvar_name\<close> for \<open>CNodeExprVar\<close> and \<open>ignore_cast\<close> for
  \<open>CNodeExprCast\<close>.
\<close>

definition module_registered :: py_state where
  "module_registered =
     module_loaded
       \<lparr>cnodeMethods :=
          [''CNodeExprVar'' \<mapsto> [(''lvar'', Property (Function ''lvar'' 1)),
                                     (''lvar_name'', Property (Function ''lvar_name'' 2))],
           ''CNodeExprCast'' \<mapsto> [(''ignore_cast'', Property (Function ''ignore_cast'' 3))]]\<rparr>"

text \<open>The same module after one more registration, of a function \<open>lvar\<close> for \<open>CNodeExprVar\<close>.\<close>

definition module_lvar_twice :: py_state where
  "module_lvar_twice =
     module_loaded
       \<lparr>cnodeMethods :=
          [''CNodeExprVar'' \<mapsto> [(''lvar'', Property (Function ''lvar'' 1)),
                                     (''lvar_name'', Property (Function ''lvar_name'' 2)),
                                     (''lvar'', Function ''lvar'' 4)],
           ''CNodeExprCast'' \<mapsto> [(''ignore_cast'', Property (Function ''ignore_cast'' 3))]]\<rparr>"

section \<open>Properties\<close>


lemma closest_ea_loop_chain:
  "closest_ea_loop B (ea n) (self_parent n) =
     (case find (\<lambda>m. ea m \<noteq> B) (parent_chain n) of None \<Rightarrow> B | Some m \<Rightarrow> ea m)"
  by (induction n rule: parent_chain.induct) (simp_all add: ea_def)

lemma find_ea_not_BADADDR:
  "find (\<lambda>m. ea m \<noteq> B) ns = Some m \<Longrightarrow> ea m \<noteq> B"
  by (auto simp: find_Some_iff)

subsection \<open>\<open>parent\<close>, \<open>has_parent\<close> and \<open>cfunc\<close>\<close>

text \<open>
  C3. Reading \<open>n.parent\<close> raises, and then a \<open>RuntimeError\<close>, exactly when \<open>n.has_parent\<close>
  is \<open>False\<close>, which is exactly when \<open>n\<close> was constructed with parent \<open>None\<close>; otherwise it
  returns the parent node. In both cases \<open>n\<close> is left as it was.
\<close>

theorem parent_raises_iff_no_parent:
  "(fst (parent n) = Inl RuntimeError) = (fst (has_parent n) = Inr False)
   \<and> ((\<exists>e. fst (parent n) = Inl e) = (fst (has_parent n) = Inr False))
   \<and> (fst (has_parent n) = Inr False) = (\<exists>cl citem hxcfunc. n = CNode_init cl citem hxcfunc None)
   \<and> (fst (has_parent n) \<noteq> Inr False \<longrightarrow>
        (\<exists>p. self_parent n = Some p \<and> parent n = (Inr p, n)))
   \<and> snd (parent n) = n"
proof (cases n)
  case (CNode cl citem hxcfunc par)
  show ?thesis
  proof (cases par)
    case None
    with CNode have "parent n = (Inl RuntimeError, n)" "has_parent n = (Inr False, n)"
      by (simp_all add: parent_def has_parent_def)
    with CNode None show ?thesis
      by (auto simp: CNode_init_def)
  next
    case (Some p)
    with CNode have "parent n = (Inr p, n)" "has_parent n = (Inr True, n)"
      by (simp_all add: parent_def has_parent_def)
    with CNode Some show ?thesis
      by (auto simp: CNode_init_def)
  qed
qed

theorem parent_raises_iff_no_parent_witness:
  "fst (has_parent (CNode_init (1::nat) (CItem 4198400 68 None) (7::nat)
          (Some (CNode_init 2 (CItem 4198400 70 None) 7 None)))) \<noteq> Inr False
   \<and> parent (CNode_init (1::nat) (CItem 4198400 68 None) (7::nat)
          (Some (CNode_init 2 (CItem 4198400 70 None) 7 None)))
       = (Inr (CNode_init 2 (CItem 4198400 70 None) 7 None),
          CNode_init 1 (CItem 4198400 68 None) 7
            (Some (CNode_init 2 (CItem 4198400 70 None) 7 None)))
   \<and> fst (parent (CNode_init (2::nat) (CItem 4198400 70 None) (7::nat) None)) = Inl RuntimeError"
  using parent_raises_iff_no_parent
          [of "CNode_init (1::nat) (CItem 4198400 68 None) (7::nat)
                 (Some (CNode_init 2 (CItem 4198400 70 None) 7 None))"]
        parent_raises_iff_no_parent
          [of "CNode_init (2::nat) (CItem 4198400 70 None) (7::nat) None"]
  by (simp add: has_parent_def CNode_init_def)

text \<open>
  C6. Constructor and accessors round-trip: a node constructed from \<open>citem\<close>, \<open>hxcfunc\<close> and
  a parent \<open>p\<close> other than \<open>None\<close> gives back \<open>hxcfunc\<close> as \<open>cfunc\<close> and \<open>p\<close> as \<open>parent\<close>,
  has \<open>has_parent\<close> true, and holds exactly the handles it was given.
\<close>

theorem constructor_accessor_roundtrip:
  "fst (cfunc (CNode_init cl citem hxcfunc (Some p))) = Inr hxcfunc
   \<and> fst (parent (CNode_init cl citem hxcfunc (Some p))) = Inr p
   \<and> fst (has_parent (CNode_init cl citem hxcfunc (Some p))) = Inr True
   \<and> self_citem (CNode_init cl citem hxcfunc (Some p)) = citem
   \<and> self_hxcfunc (CNode_init cl citem hxcfunc (Some p)) = hxcfunc
   \<and> self_parent (CNode_init cl citem hxcfunc (Some p)) = Some p"
  by (simp add: cfunc_def parent_def has_parent_def CNode_init_def)

subsection \<open>\<open>closest_ea\<close>\<close>

text \<open>
  C8. \<open>n.closest_ea\<close> is the \<open>ea\<close> of the first node of the parent chain of \<open>n\<close> whose \<open>ea\<close>
  is not \<open>idc.BADADDR\<close>, and \<open>None\<close> when the chain has no such node; \<open>n\<close> is left as it was.
\<close>

theorem closest_ea_first_in_chain:
  "closest_ea B n = (Inr (map_option ea (find (\<lambda>m. ea m \<noteq> B) (parent_chain n))), n)"
proof (cases "find (\<lambda>m. ea m \<noteq> B) (parent_chain n)")
  case None
  then show ?thesis
    by (simp add: closest_ea_def closest_ea_loop_chain)
next
  case (Some m)
  then show ?thesis
    using find_ea_not_BADADDR [OF Some]
    by (simp add: closest_ea_def closest_ea_loop_chain)
qed

theorem closest_ea_first_in_chain_witness:
  "closest_ea 4294967295
     (CNode_init (1::nat) (CItem 4294967295 68 None) (7::nat)
        (Some (CNode_init 2 (CItem 4198400 70 None) 7
           (Some (CNode_init 3 (CItem 4198144 72 None) 7 None)))))
   = (Inr (Some 4198400),
      CNode_init 1 (CItem 4294967295 68 None) 7
        (Some (CNode_init 2 (CItem 4198400 70 None) 7
           (Some (CNode_init 3 (CItem 4198144 72 None) 7 None)))))"
  using closest_ea_first_in_chain
          [of 4294967295
              "CNode_init (1::nat) (CItem 4294967295 68 None) (7::nat)
                 (Some (CNode_init 2 (CItem 4198400 70 None) 7
                    (Some (CNode_init 3 (CItem 4198144 72 None) 7 None))))"]
  by (simp add: CNode_init_def ea_def)

text \<open>
  C4, as the claim states it, fails: on a root node whose \<open>ea\<close> is \<open>idc.BADADDR\<close> no
  exception is raised, \<open>closest_ea\<close> returns \<open>None\<close>.
\<close>

theorem closest_ea_no_address_counterexample:
  "parent_chain (CNode_init (1::nat) (CItem 4294967295 68 None) (7::nat) None)
     = [CNode_init 1 (CItem 4294967295 68 None) 7 None]
   \<and> ea (CNode_init (1::nat) (CItem 4294967295 68 None) (7::nat) None) = 4294967295
   \<and> closest_ea 4294967295 (CNode_init (1::nat) (CItem 4294967295 68 None) (7::nat) None)
     = (Inr None, CNode_init 1 (CItem 4294967295 68 None) 7 None)"
  by (simp add: closest_ea_def CNode_init_def ea_def)

text \<open>
  C4, amended. When the \<open>ea\<close> of \<open>n\<close> and of every ancestor of \<open>n\<close> is \<open>idc.BADADDR\<close>,
  \<open>n.closest_ea\<close> raises no exception: it returns \<open>None\<close>.
\<close>

theorem closest_ea_no_address_returns_None:
  assumes "\<forall>m \<in> set (parent_chain n). ea m = B"
  shows "closest_ea B n = (Inr None, n)"
proof -
  have "find (\<lambda>m. ea m \<noteq> B) (parent_chain n) = None"
    using assms by (simp add: find_None_iff)
  then show ?thesis
    by (simp add: closest_ea_def closest_ea_loop_chain)
qed

theorem closest_ea_no_address_returns_None_witness:
  "list_all (\<lambda>m. ea m = 4294967295)
     (parent_chain (CNode_init (1::nat) (CItem 4294967295 68 None) (7::nat)
        (Some (CNode_init 2 (CItem 4294967295 70 None) 7 None))))
   \<and> closest_ea 4294967295
       (CNode_init (1::nat) (CItem 4294967295 68 None) (7::nat)
          (Some (CNode_init 2 (CItem 4294967295 70 None) 7 None)))
     = (Inr None,
        CNode_init 1 (CItem 4294967295 68 None) 7
          (Some (CNode_init 2 (CItem 4294967295 70 None) 7 None)))"
proof -
  have h: "\<forall>m \<in> set (parent_chain (CNode_init (1::nat) (CItem 4294967295 68 None) (7::nat)
                  (Some (CNode_init 2 (CItem 4294967295 70 None) 7 None)))).
      ea m = 4294967295"
    by (simp add: CNode_init_def ea_def)
  show ?thesis
    using h closest_ea_no_address_returns_None [OF h] by (simp add: list_all_iff)
qed
subsection \<open>\<open>GetCNode\<close>\<close>

lemma transitive_subclasses_direct:
  "set (class_subclasses E c) \<subseteq> transitive_subclasses E c"
  by (auto simp: transitive_subclasses_def)

lemma transitive_subclasses_step:
  "d \<in> transitive_subclasses E c \<Longrightarrow> set (class_subclasses E d) \<subseteq> transitive_subclasses E c"
  by (auto simp: transitive_subclasses_def intro: trancl_into_trancl)

lemma transitive_subclasses_closed:
  assumes root: "set (class_subclasses E c) \<subseteq> S"
    and closed: "\<forall>d \<in> S. set (class_subclasses E d) \<subseteq> S"
  shows "transitive_subclasses E c \<subseteq> S"
proof
  fix d
  assume "d \<in> transitive_subclasses E c"
  then have "(c, d) \<in> {(a, b). b \<in> set (class_subclasses E a)}\<^sup>+"
    by (simp add: transitive_subclasses_def)
  then show "d \<in> S"
  proof (induction rule: trancl_induct)
    case (base y)
    then show ?case using root by auto
  next
    case (step y z)
    then show ?case using closed by auto
  qed
qed

lemma GetCNode_inv_init:
  "GetCNode_inv E t [] (remdups (class_subclasses E (CNode_cls E)))"
  using transitive_subclasses_direct [of E "CNode_cls E"]
  by (simp add: GetCNode_inv_def)

lemma GetCNode_inv_skip:
  assumes "GetCNode_inv E t dn todo" "cl \<in> set dn"
  shows "GetCNode_inv E t dn (removeAll cl todo)"
  using assms unfolding GetCNode_inv_def by auto

lemma GetCNode_inv_expand:
  assumes "GetCNode_inv E t dn todo" "cl \<in> set todo" "\<not> is_handling_type E cl t"
  shows "GetCNode_inv E t (List.insert cl dn) (List.union (class_subclasses E cl) (removeAll cl todo))"
proof -
  have cl: "cl \<in> transitive_subclasses E (CNode_cls E)"
    using assms(1,2) by (auto simp: GetCNode_inv_def)
  then have sub: "set (class_subclasses E cl) \<subseteq> transitive_subclasses E (CNode_cls E)"
    by (rule transitive_subclasses_step)
  show ?thesis
    using assms cl sub unfolding GetCNode_inv_def by auto
qed

lemma GetCNode_inv_exit:
  assumes "GetCNode_inv E t dn []" "c \<in> transitive_subclasses E (CNode_cls E)"
  shows "\<not> is_handling_type E c t"
proof -
  have "transitive_subclasses E (CNode_cls E) \<subseteq> set dn"
    using assms(1) by (intro transitive_subclasses_closed) (auto simp: GetCNode_inv_def)
  then show ?thesis using assms by (auto simp: GetCNode_inv_def)
qed

lemma GetCNode_loop_correct:
  "GetCNode_inv E (citem_op citem) dn todo \<Longrightarrow>
   (case GetCNode_loop E citem hxcfunc par dn todo of
      Inr n \<Rightarrow> \<exists>cl \<in> transitive_subclasses E (CNode_cls E).
                 is_handling_type E cl (citem_op citem) \<and> n = CNode_init cl citem hxcfunc par
    | Inl e \<Rightarrow> e = ValueError
               \<and> (\<forall>cl \<in> transitive_subclasses E (CNode_cls E).
                      \<not> is_handling_type E cl (citem_op citem)))"
proof (induction E citem hxcfunc par dn todo rule: GetCNode_loop.induct)
  case (1 E citem hxcfunc par dn todo)
  show ?case
  proof (cases "todo = []")
    case True
    have "\<forall>cl \<in> transitive_subclasses E (CNode_cls E). \<not> is_handling_type E cl (citem_op citem)"
      using GetCNode_inv_exit [of E "citem_op citem" dn] "1.prems" True by blast
    then show ?thesis
      using True by (subst GetCNode_loop.simps) simp
  next
    case False
    define cl where "cl = set_pop E dn todo"
    have cl: "cl \<in> set todo" using False by (simp add: cl_def set_pop_def)
    show ?thesis
    proof (cases "cl \<in> set dn")
      case True
      have "GetCNode_inv E (citem_op citem) dn (removeAll cl todo)"
        using "1.prems" True by (rule GetCNode_inv_skip)
      then show ?thesis
        using "1.IH"(1) [OF _ cl_def refl True] False True
        by (subst GetCNode_loop.simps) (simp add: cl_def Let_def)
    next
      case notdone: False
      show ?thesis
      proof (cases "is_handling_type E cl (citem_op citem)")
        case True
        moreover have "cl \<in> transitive_subclasses E (CNode_cls E)"
          using "1.prems" cl by (auto simp: GetCNode_inv_def)
        ultimately show ?thesis
          using False notdone
          by (subst GetCNode_loop.simps) (auto simp: cl_def Let_def)
      next
        case nohandle: False
        have "GetCNode_inv E (citem_op citem) (List.insert cl dn)
                (List.union (class_subclasses E cl) (removeAll cl todo))"
          using "1.prems" cl nohandle by (rule GetCNode_inv_expand)
        then show ?thesis
          using "1.IH"(2) [OF _ cl_def refl notdone nohandle] False notdone nohandle
          by (subst GetCNode_loop.simps) (simp add: cl_def Let_def)
      qed
    qed
  qed
qed

text \<open>
  C1. \<open>GetCNode(citem, hxcfunc, parent)\<close> always returns or raises. When some transitive
  subclass of \<open>CNode\<close> handles \<open>citem.op\<close>, it returns \<open>cl(citem, hxcfunc, parent)\<close> for a
  transitive subclass \<open>cl\<close> of \<open>CNode\<close> that handles \<open>citem.op\<close>; when none does, it raises
  \<open>ValueError\<close>. This holds whichever elements \<open>set.pop()\<close> picks.
\<close>

theorem GetCNode_dispatch:
  "((\<exists>cl \<in> transitive_subclasses E (CNode_cls E). is_handling_type E cl (citem_op citem)) \<longrightarrow>
      (\<exists>cl \<in> transitive_subclasses E (CNode_cls E).
          is_handling_type E cl (citem_op citem)
          \<and> GetCNode E citem hxcfunc par = Inr (CNode_init cl citem hxcfunc par)))
   \<and> ((\<forall>cl \<in> transitive_subclasses E (CNode_cls E). \<not> is_handling_type E cl (citem_op citem)) \<longrightarrow>
        GetCNode E citem hxcfunc par = Inl ValueError)"
  using GetCNode_loop_correct [OF GetCNode_inv_init, of E citem hxcfunc par]
  unfolding GetCNode_def
  by (cases "GetCNode_loop E citem hxcfunc par [] (remdups (class_subclasses E (CNode_cls E)))")
     auto

theorem GetCNode_dispatch_witness:
  "3 \<in> transitive_subclasses example_env (CNode_cls example_env)
   \<and> is_handling_type example_env 3 (citem_op (CItem 4198400 48 None))
   \<and> GetCNode example_env (CItem 4198400 48 None) (7::nat) None
       = Inr (CNode_init 3 (CItem 4198400 48 None) 7 None)
   \<and> GetCNode example_env (CItem 4198400 99 None) (7::nat) None = Inl ValueError"
proof -
  have "(0, 1) \<in> {(a, b). b \<in> set (class_subclasses example_env a)}"
    and "(1, 3) \<in> {(a, b). b \<in> set (class_subclasses example_env a)}"
    by (simp_all add: class_subclasses_def example_env_def)
  then have "(0, 3) \<in> {(a, b). b \<in> set (class_subclasses example_env a)}\<^sup>+"
    by (rule trancl.intros(2) [OF r_into_trancl])
  then have in3: "3 \<in> transitive_subclasses example_env (CNode_cls example_env)"
    by (simp add: transitive_subclasses_def example_env_def)
  have h3: "is_handling_type example_env 3 (citem_op (CItem 4198400 48 None))"
    by (simp add: example_env_def)
  have only3: "\<And>cl. is_handling_type example_env cl (citem_op (CItem 4198400 48 None)) \<Longrightarrow> cl = 3"
    by (simp add: example_env_def)
  have none: "\<forall>cl \<in> transitive_subclasses example_env (CNode_cls example_env).
                \<not> is_handling_type example_env cl (citem_op (CItem 4198400 99 None))"
    by (simp add: example_env_def)
  show ?thesis
    using in3 h3 only3 none
      GetCNode_dispatch [of example_env "CItem 4198400 48 None" "7::nat" None]
      GetCNode_dispatch [of example_env "CItem 4198400 99 None" "7::nat" None]
    by blast
qed

subsection \<open>\<open>ignore_cast\<close>\<close>

lemma ignore_cast_receiver: "snd (ignore_cast E x) = x"
  by (subst ignore_cast.simps)
     (auto simp: operand_def createChild_def split: option.splits sum.splits prod.splits)

lemma ignore_cast_base:
  "\<not> is_cast E (self_class x) \<Longrightarrow> ignore_cast E x = (Inr x, x)"
  by (subst ignore_cast.simps) simp

lemma ignore_cast_not_cast:
  "fst (ignore_cast E x) = Inr y \<Longrightarrow> \<not> is_cast E (self_class y)"
proof (induction E x rule: ignore_cast.induct)
  case (1 E self)
  show ?case
  proof (cases "is_cast E (self_class self)")
    case False
    with "1.prems" show ?thesis by (simp add: ignore_cast_base)
  next
    case True
    obtain r self1 where op: "operand E self = (r, self1)"
      by (cases "operand E self")
    show ?thesis
    proof (cases r)
      case (Inl e)
      with "1.prems" True op show ?thesis
        by (subst (asm) ignore_cast.simps) simp
    next
      case (Inr child)
      with "1.prems" True op have "fst (ignore_cast E child) = Inr y"
        by (subst (asm) ignore_cast.simps) simp
      then show ?thesis
        by (rule "1.IH" [OF True op [symmetric] Inr])
    qed
  qed
qed

text \<open>
  C9. \<open>ignore_cast\<close> is idempotent. Whenever \<open>x.ignore_cast\<close> returns a node \<open>y\<close>, through
  any chain of nested casts, \<open>y\<close> is not a cast node and \<open>y.ignore_cast\<close> is \<open>y\<close> itself, so
  that \<open>(x.ignore_cast).ignore_cast\<close> and \<open>x.ignore_cast\<close> are equal (nodes are compared by
  value); on a node that is not a cast, \<open>ignore_cast\<close> returns the node.
\<close>

theorem ignore_cast_idempotent:
  "(\<forall>y. fst (ignore_cast E x) = Inr y \<longrightarrow>
        \<not> is_cast E (self_class y) \<and> fst (ignore_cast E y) = Inr y)
   \<and> (\<not> is_cast E (self_class x) \<longrightarrow> fst (ignore_cast E x) = Inr x)"
proof (intro conjI allI impI)
  fix y
  assume y: "fst (ignore_cast E x) = Inr y"
  then show "\<not> is_cast E (self_class y)"
    by (rule ignore_cast_not_cast)
  then show "fst (ignore_cast E y) = Inr y"
    by (simp add: ignore_cast_base)
next
  assume "\<not> is_cast E (self_class x)"
  then show "fst (ignore_cast E x) = Inr x"
    by (simp add: ignore_cast_base)
qed

theorem ignore_cast_idempotent_witness:
  "fst (ignore_cast example_env
         (CNode_init 3 (CItem 4198400 48 (Some (CItem 4198400 48 (Some (CItem 4198400 65 None)))))
            (7::nat) None))
     = Inr (CNode_init 4 (CItem 4198400 65 None) 7
         (Some (CNode_init 3 (CItem 4198400 48 (Some (CItem 4198400 65 None))) 7
           (Some (CNode_init 3
              (CItem 4198400 48 (Some (CItem 4198400 48 (Some (CItem 4198400 65 None))))) 7 None)))))
   \<and> \<not> is_cast example_env 4
   \<and> fst (ignore_cast example_env
         (CNode_init 4 (CItem 4198400 65 None) (7::nat)
         (Some (CNode_init 3 (CItem 4198400 48 (Some (CItem 4198400 65 None))) 7
           (Some (CNode_init 3
              (CItem 4198400 48 (Some (CItem 4198400 48 (Some (CItem 4198400 65 None))))) 7 None))))))
     = Inr (CNode_init 4 (CItem 4198400 65 None) 7
         (Some (CNode_init 3 (CItem 4198400 48 (Some (CItem 4198400 65 None))) 7
           (Some (CNode_init 3
              (CItem 4198400 48 (Some (CItem 4198400 48 (Some (CItem 4198400 65 None))))) 7 None)))))"
proof -
  have run: "fst (ignore_cast example_env
         (CNode_init 3 (CItem 4198400 48 (Some (CItem 4198400 48 (Some (CItem 4198400 65 None)))))
            (7::nat) None))
     = Inr (CNode_init 4 (CItem 4198400 65 None) 7
         (Some (CNode_init 3 (CItem 4198400 48 (Some (CItem 4198400 65 None))) 7
           (Some (CNode_init 3
              (CItem 4198400 48 (Some (CItem 4198400 48 (Some (CItem 4198400 65 None))))) 7 None)))))"
    by code_simp
  show ?thesis
    using run
      ignore_cast_idempotent [of example_env
        "CNode_init 3 (CItem 4198400 48 (Some (CItem 4198400 48 (Some (CItem 4198400 65 None)))))
            (7::nat) None"]
    by (simp add: CNode_init_def)
qed

subsection \<open>\<open>get_cnode_filter\<close>\<close>

lemma fold_app_filt: "fold (app_filt cb_filter) ns l = l @ filter cb_filter ns"
  by (induction ns arbitrary: l) (simp_all add: app_filt_def)

lemma fold_record: "fold (\<lambda>cn l. l @ [cn]) ns l = l @ ns"
  by (induction ns arbitrary: l) simp_all

lemma visited_nodes_dfs: "visited_nodes dfs n = dfs n"
  by (simp add: visited_nodes_def visit_cnode_def visit_dfs_cnode_def fold_record)

text \<open>
  C7. \<open>n.get_cnode_filter(cb_filter)\<close> returns exactly the nodes visited by \<open>n.visit_cnode\<close>
  on which \<open>cb_filter\<close> is true, in the order of the visit, and leaves \<open>n\<close> as it was.
\<close>

theorem get_cnode_filter_subsequence:
  "get_cnode_filter dfs n cb_filter = (Inr (filter cb_filter (visited_nodes dfs n)), n)"
  by (simp add: get_cnode_filter_def visit_cnode_def visit_dfs_cnode_def fold_app_filt
        visited_nodes_dfs)


theorem get_cnode_filter_subsequence_witness:
  "get_cnode_filter
     (\<lambda>n. n # map (\<lambda>i. CNode_init 4 (CItem i 65 None) (self_hxcfunc n) (Some n)) [1, 2, 3])
     (CNode_init (3::nat) (CItem 0 48 None) (7::nat) None)
     (\<lambda>m. citem_ea (self_citem m) \<noteq> 2)
   = (Inr [CNode_init 3 (CItem 0 48 None) 7 None,
           CNode_init 4 (CItem 1 65 None) 7 (Some (CNode_init 3 (CItem 0 48 None) 7 None)),
           CNode_init 4 (CItem 3 65 None) 7 (Some (CNode_init 3 (CItem 0 48 None) 7 None))],
      CNode_init 3 (CItem 0 48 None) 7 None)"
  using get_cnode_filter_subsequence
          [of "\<lambda>n. n # map (\<lambda>i. CNode_init 4 (CItem i 65 None) (self_hxcfunc n) (Some n)) [1, 2, 3]"
              "CNode_init (3::nat) (CItem 0 48 None) (7::nat) None"
              "\<lambda>m. citem_ea (self_citem m) \<noteq> 2"]
  by (simp add: visited_nodes_dfs CNode_init_def)

subsection \<open>The state of a node\<close>







subsection \<open>\<open>addCNodeMethod\<close> and \<open>buildCNode\<close>\<close>

lemma base_classes_images:
  "base_classes c2c bs lb =
     (if \<forall>b \<in> set bs. c2c b \<noteq> None then Inr (lb @ map (\<lambda>b. the (c2c b)) bs)
      else Inl AssertionError)"
  by (induction bs arbitrary: lb) (auto split: option.splits)

lemma install_methods_map_add: "install_methods l attr = attr ++ map_of (rev l)"
  unfolding install_methods_def
proof (induction l arbitrary: attr)
  case Nil
  then show ?case by simp
next
  case (Cons p l)
  obtain na f where p: "p = (na, f)" by (cases p)
  have "attr(na \<mapsto> f) ++ map_of (rev l) = attr ++ (map_of (rev l))(na \<mapsto> f) ++ map_of (rev l)"
    by (auto simp: fun_eq_iff map_add_def split: option.splits)
  then show ?case using Cons p
    by (auto simp: fun_eq_iff map_add_def split: option.splits)
qed

lemma map_of_rev_last:
  assumes "l = pre @ (na, f) # post" "na \<notin> fst ` set post"
  shows "map_of (rev l) na = Some f"
proof -
  have "map_of (rev post) na = None"
    using assms(2) by (simp add: map_of_eq_None_iff)
  then show ?thesis
    using assms(1) by (simp add: map_add_def)
qed

lemma replace_no_occurrence:
  "old \<noteq> [] \<Longrightarrow> \<forall>i. take (length old) (drop i s) \<noteq> old \<Longrightarrow> replace old new s = s"
proof (induction s)
  case Nil
  then show ?case by (simp add: replace.simps)
next
  case (Cons c cs)
  from Cons.prems(2) have here: "take (length old) (c # cs) \<noteq> old"
    by (metis drop0)
  have "\<forall>i. take (length old) (drop i cs) \<noteq> old"
  proof
    fix i
    show "take (length old) (drop i cs) \<noteq> old"
      using Cons.prems(2) [rule_format, of "Suc i"] by simp
  qed
  with Cons have "replace old new cs = cs" by simp
  with here Cons.prems(1) show ?case
    by (subst replace.simps) simp
qed

lemma replace_HxC_prefix:
  assumes "\<forall>i. take 3 (drop i rest) \<noteq> ''HxC''"
  shows "replace ''HxC'' ''CNode'' (''HxC'' @ rest) = ''CNode'' @ rest"
proof -
  have "length ''HxC'' = 3" by simp
  with assms have "\<forall>i. take (length ''HxC'') (drop i rest) \<noteq> ''HxC''"
    by metis
  then have "replace ''HxC'' ''CNode'' rest = rest"
    by (intro replace_no_occurrence) simp_all
  then show ?thesis
    by (subst replace.simps) simp
qed

lemma subclasses_fold_fields:
  "cls_name (fold (\<lambda>b h. h(b := (h b)\<lparr>cls_subclasses := cls_subclasses (h b) @ [cn]\<rparr>)) bs h c)
     = cls_name (h c)
   \<and> cls_bases (fold (\<lambda>b h. h(b := (h b)\<lparr>cls_subclasses := cls_subclasses (h b) @ [cn]\<rparr>)) bs h c)
     = cls_bases (h c)
   \<and> cls_dict (fold (\<lambda>b h. h(b := (h b)\<lparr>cls_subclasses := cls_subclasses (h b) @ [cn]\<rparr>)) bs h c)
     = cls_dict (h c)"
  by (induction bs arbitrary: h) simp_all

lemma subclasses_fold_other:
  "c \<notin> set bs \<Longrightarrow>
   fold (\<lambda>b h. h(b := (h b)\<lparr>cls_subclasses := cls_subclasses (h b) @ [cn]\<rparr>)) bs h c = h c"
  by (induction bs arbitrary: h) simp_all

lemma type_new_raises:
  "type_check H (classes s) nm bases attr = Some e \<Longrightarrow> type_new H s nm bases attr = (Inl e, s)"
  by (simp add: type_new_def)

lemma type_new_creates:
  assumes "type_check H (classes s) nm bases attr = None"
    and "type_new H s nm bases attr = (r, s1)"
  shows "r = Inr (next_class s)"
    and "next_class s1 = Suc (next_class s)"
    and "cls_name (classes s1 (next_class s)) = nm"
    and "cls_dict (classes s1 (next_class s)) = attr"
    and "cls_bases (classes s1 (next_class s)) = (if bases = [] then [object_cls H] else bases)"
    and "globals s1 = globals s"
    and "citem2cnode s1 = citem2cnode s"
    and "cnodeMethods s1 = cnodeMethods s"
    and "cnode_module s1 = cnode_module s"
    and "c \<noteq> next_class s \<Longrightarrow> cls_name (classes s1 c) = cls_name (classes s c)"
    and "c \<noteq> next_class s \<Longrightarrow> cls_bases (classes s1 c) = cls_bases (classes s c)"
    and "c \<noteq> next_class s \<Longrightarrow> cls_dict (classes s1 c) = cls_dict (classes s c)"
    and "c \<noteq> next_class s \<Longrightarrow> c \<notin> set (if bases = [] then [object_cls H] else bases) \<Longrightarrow>
           classes s1 c = classes s c"
  using assms
  by (auto simp: type_new_def Let_def subclasses_fold_fields subclasses_fold_other)


lemma module_intact_reads:
  assumes "module_intact s"
  shows "globals s ''_citem2cnode'' = None"
    and "globals s ''_cnodeMethods'' = None"
    and "globals s ''__name__'' = None"
    and "\<not> shadowed s [''AssertionError'', ''dict'', ''type'', ''tuple'', ''globals'']"
  using assms by (simp_all add: module_intact_def shadowed_def)

lemma buildCNode_failure:
  assumes "module_intact s"
    and "citem2cnode s cls \<noteq> None
         \<or> (\<exists>b \<in> set (cls_bases (classes s cls)). citem2cnode s b = None)"
  shows "buildCNode H s cls = Some (Inl AssertionError, s)"
  using assms(2) module_intact_reads [OF assms(1)]
  by (auto simp: buildCNode_def base_classes_images)

lemma buildCNode_success:
  fixes H s cls
  defines "nm \<equiv> replace ''HxC'' ''CNode'' (cls_name (classes s cls))"
  defines "lb \<equiv> map (\<lambda>b. the (citem2cnode s b)) (cls_bases (classes s cls))"
  defines "attr \<equiv>
    install_methods (case cnodeMethods s nm of None \<Rightarrow> [] | Some l \<Rightarrow> l)
      ((cls_dict (classes s cls))
         (''__module__'' \<mapsto> Str (cnode_module s),
          ''__doc__'' \<mapsto> Str (cnode_doc (cls_name (classes s cls)))))"
  assumes intact: "module_intact s"
    and notkey: "citem2cnode s cls = None"
    and bases: "\<forall>b \<in> set (cls_bases (classes s cls)). citem2cnode s b \<noteq> None"
    and accepted: "type_check H (classes s) nm lb attr = None"
    and name: "nm \<noteq> ''_citem2cnode''"
  shows "buildCNode H s cls =
    Some (Inr cls,
          (snd (type_new H s nm lb attr))
            \<lparr>globals := (globals s)(nm \<mapsto> next_class s),
             citem2cnode := (citem2cnode s)(cls \<mapsto> next_class s)\<rparr>)"
proof -
  obtain r s1 where run: "type_new H s nm lb attr = (r, s1)"
    by (cases "type_new H s nm lb attr")
  note created = type_new_creates [OF accepted run]
  have attr: "(case cnodeMethods s nm of
                 None \<Rightarrow> (cls_dict (classes s cls))
                   (''__module__'' \<mapsto> Str (cnode_module s),
                    ''__doc__'' \<mapsto> Str (cnode_doc (cls_name (classes s cls))))
               | Some l \<Rightarrow> install_methods l
                   ((cls_dict (classes s cls))
                      (''__module__'' \<mapsto> Str (cnode_module s),
                       ''__doc__'' \<mapsto> Str (cnode_doc (cls_name (classes s cls)))))) = attr"
    by (simp add: attr_def install_methods_def split: option.splits)
  have "base_classes (citem2cnode s) (cls_bases (classes s cls)) [] = Inr lb"
    using bases by (simp add: base_classes_images lb_def)
  then show ?thesis
    using notkey name module_intact_reads [OF intact] created(1,6,7)
    by (simp add: buildCNode_def Let_def nm_def [symmetric] attr run)
qed


lemma buildCNode_generated:
  assumes "buildCNode H s cls = Some (r, s')"
    and "next_class s' = Suc (next_class s)"
  shows "cls_name (classes s' (next_class s))
           = replace ''HxC'' ''CNode'' (cls_name (classes s cls))"
    and "cls_dict (classes s' (next_class s))
           = install_methods
               (case cnodeMethods s (replace ''HxC'' ''CNode'' (cls_name (classes s cls))) of
                  None \<Rightarrow> [] | Some l \<Rightarrow> l)
               ((cls_dict (classes s cls))
                  (''__module__'' \<mapsto>
                     (case globals s ''__name__'' of
                        None \<Rightarrow> Str (cnode_module s) | Some c \<Rightarrow> ClassRef c),
                   ''__doc__'' \<mapsto> Str (cnode_doc (cls_name (classes s cls)))))"
proof -
  define nm where "nm = replace ''HxC'' ''CNode'' (cls_name (classes s cls))"
  define attr where "attr =
    install_methods (case cnodeMethods s nm of None \<Rightarrow> [] | Some l \<Rightarrow> l)
      ((cls_dict (classes s cls))
         (''__module__'' \<mapsto>
            (case globals s ''__name__'' of
               None \<Rightarrow> Str (cnode_module s) | Some c \<Rightarrow> ClassRef c),
          ''__doc__'' \<mapsto> Str (cnode_doc (cls_name (classes s cls)))))"
  have attr: "(case cnodeMethods s nm of
                 None \<Rightarrow> (cls_dict (classes s cls))
                   (''__module__'' \<mapsto>
                      (case globals s ''__name__'' of
                         None \<Rightarrow> Str (cnode_module s) | Some c \<Rightarrow> ClassRef c),
                    ''__doc__'' \<mapsto> Str (cnode_doc (cls_name (classes s cls))))
               | Some l \<Rightarrow> install_methods l
                   ((cls_dict (classes s cls))
                      (''__module__'' \<mapsto>
                         (case globals s ''__name__'' of
                            None \<Rightarrow> Str (cnode_module s) | Some c \<Rightarrow> ClassRef c),
                       ''__doc__'' \<mapsto> Str (cnode_doc (cls_name (classes s cls)))))) = attr"
    by (simp add: attr_def install_methods_def split: option.splits)
  obtain lb where lb: "base_classes (citem2cnode s) (cls_bases (classes s cls)) [] = Inr lb"
    and run: "(case type_new H s nm lb attr of
                 (Inl e, s1) \<Rightarrow> (Inl e, s1)
               | (Inr cn_cls, s1) \<Rightarrow>
                   (let s2 = s1\<lparr>globals := (globals s1)(nm \<mapsto> cn_cls)\<rparr>
                    in if globals s2 ''_citem2cnode'' \<noteq> None then (Inl TypeError, s2)
                       else (Inr cls,
                             s2\<lparr>citem2cnode := (citem2cnode s2)(cls \<mapsto> cn_cls)\<rparr>))) = (r, s')"
  proof (cases "base_classes (citem2cnode s) (cls_bases (classes s cls)) []")
    case (Inl e)
    with assms show ?thesis
      by (auto simp: buildCNode_def split: if_splits)
  next
    case (Inr lb)
    with assms have "(case type_new H s nm lb attr of
                 (Inl e, s1) \<Rightarrow> (Inl e, s1)
               | (Inr cn_cls, s1) \<Rightarrow>
                   (let s2 = s1\<lparr>globals := (globals s1)(nm \<mapsto> cn_cls)\<rparr>
                    in if globals s2 ''_citem2cnode'' \<noteq> None then (Inl TypeError, s2)
                       else (Inr cls,
                             s2\<lparr>citem2cnode := (citem2cnode s2)(cls \<mapsto> cn_cls)\<rparr>))) = (r, s')"
      by (auto simp: buildCNode_def Let_def nm_def [symmetric] attr split: if_splits)
    with Inr that show ?thesis by blast
  qed
  obtain r1 s1 where new: "type_new H s nm lb attr = (r1, s1)"
    by (cases "type_new H s nm lb attr")
  have accepted: "type_check H (classes s) nm lb attr = None"
  proof (cases "type_check H (classes s) nm lb attr")
    case None
    then show ?thesis .
  next
    case (Some e)
    then have "type_new H s nm lb attr = (Inl e, s)"
      by (rule type_new_raises)
    with run have "s' = s" by simp
    with assms(2) show ?thesis by simp
  qed
  note created = type_new_creates [OF accepted new]
  have "classes s' = classes s1"
    using run new created(1) by (auto simp: Let_def split: if_splits)
  then show "cls_name (classes s' (next_class s))
           = replace ''HxC'' ''CNode'' (cls_name (classes s cls))"
    and "cls_dict (classes s' (next_class s))
           = install_methods
               (case cnodeMethods s (replace ''HxC'' ''CNode'' (cls_name (classes s cls))) of
                  None \<Rightarrow> [] | Some l \<Rightarrow> l)
               ((cls_dict (classes s cls))
                  (''__module__'' \<mapsto>
                     (case globals s ''__name__'' of
                        None \<Rightarrow> Str (cnode_module s) | Some c \<Rightarrow> ClassRef c),
                   ''__doc__'' \<mapsto> Str (cnode_doc (cls_name (classes s cls)))))"
    using created(3,4) by (simp_all add: nm_def attr_def)
qed

lemma buildCNode_returns_generated:
  assumes "buildCNode H s cls = Some (Inr r, s')"
  shows "next_class s' = Suc (next_class s)"
  using assms
  by (auto simp: buildCNode_def Let_def type_new_def
           split: if_splits sum.splits option.splits prod.splits)

lemma images_of_bases:
  "map f bs = map Some lb \<Longrightarrow> map (\<lambda>b. the (f b)) bs = lb"
  by (induction bs arbitrary: lb) auto

lemma module_registered_intact: "module_intact module_registered"
  by (simp add: module_intact_def shadowed_def module_registered_def module_loaded_def)

lemma addCNodeMethod_registers:
  assumes "globals s ''_cnodeMethods'' = None"
  shows "decorate_addCNodeMethod cnode_name (Some na) s f =
     Some (Inr f,
      s\<lparr>cnodeMethods := (cnodeMethods s)
           (cnode_name \<mapsto> (case cnodeMethods s cnode_name of None \<Rightarrow> [] | Some l \<Rightarrow> l)
                              @ [(na, f)])\<rparr>)"
  using assms
  by (auto simp: decorate_addCNodeMethod_def internal_addcnodemeth_def addCNodeMethod_def
           split: option.splits)

lemma addCNodeMethod_registers_by_name:
  assumes "globals s ''_cnodeMethods'' = None"
    and "\<not> shadowed s [''isinstance'', ''property'']"
  shows "decorate_addCNodeMethod cnode_name None s (Function na i) =
     Some (Inr (Function na i),
      s\<lparr>cnodeMethods := (cnodeMethods s)
           (cnode_name \<mapsto> (case cnodeMethods s cnode_name of None \<Rightarrow> [] | Some l \<Rightarrow> l)
                              @ [(na, Function na i)])\<rparr>)"
    and "decorate_addCNodeMethod cnode_name None s (Property (Function na i)) =
     Some (Inr (Property (Function na i)),
      s\<lparr>cnodeMethods := (cnodeMethods s)
           (cnode_name \<mapsto> (case cnodeMethods s cnode_name of None \<Rightarrow> [] | Some l \<Rightarrow> l)
                              @ [(na, Property (Function na i))])\<rparr>)"
  using assms
  by (auto simp: decorate_addCNodeMethod_def internal_addcnodemeth_def addCNodeMethod_def
           shadowed_def split: option.splits)

lemma module_loaded_names:
  "globals module_loaded ''_cnodeMethods'' = None"
  "\<not> shadowed module_loaded [''isinstance'', ''property'']"
  by (simp_all add: module_loaded_def shadowed_def)

lemma module_registered_by_decorators:
  "\<exists>s1 s2.
     decorate_addCNodeMethod ''CNodeExprVar'' None module_loaded (Property (Function ''lvar'' 1))
       = Some (Inr (Property (Function ''lvar'' 1)), s1)
     \<and> decorate_addCNodeMethod ''CNodeExprVar'' None s1 (Property (Function ''lvar_name'' 2))
       = Some (Inr (Property (Function ''lvar_name'' 2)), s2)
     \<and> decorate_addCNodeMethod ''CNodeExprCast'' None s2 (Property (Function ''ignore_cast'' 3))
       = Some (Inr (Property (Function ''ignore_cast'' 3)), module_registered)"
proof -
  define s1 where "s1 = module_loaded
    \<lparr>cnodeMethods := [''CNodeExprVar'' \<mapsto> [(''lvar'', Property (Function ''lvar'' 1))]]\<rparr>"
  define s2 where "s2 = module_loaded
    \<lparr>cnodeMethods := [''CNodeExprVar'' \<mapsto> [(''lvar'', Property (Function ''lvar'' 1)),
                                     (''lvar_name'', Property (Function ''lvar_name'' 2))]]\<rparr>"
  have names: "globals s1 ''_cnodeMethods'' = None" "\<not> shadowed s1 [''isinstance'', ''property'']"
    "globals s2 ''_cnodeMethods'' = None" "\<not> shadowed s2 [''isinstance'', ''property'']"
    by (simp_all add: s1_def s2_def module_loaded_def shadowed_def)
  have "decorate_addCNodeMethod ''CNodeExprVar'' None module_loaded
          (Property (Function ''lvar'' 1)) = Some (Inr (Property (Function ''lvar'' 1)), s1)"
    by (simp add: addCNodeMethod_registers_by_name(2) [OF module_loaded_names] s1_def)
       (simp add: module_loaded_def)
  moreover have "decorate_addCNodeMethod ''CNodeExprVar'' None s1
          (Property (Function ''lvar_name'' 2))
       = Some (Inr (Property (Function ''lvar_name'' 2)), s2)"
    by (simp add: addCNodeMethod_registers_by_name(2) [OF names(1,2)])
       (simp add: s1_def s2_def)
  moreover have "decorate_addCNodeMethod ''CNodeExprCast'' None s2
          (Property (Function ''ignore_cast'' 3))
       = Some (Inr (Property (Function ''ignore_cast'' 3)), module_registered)"
    by (simp add: addCNodeMethod_registers_by_name(2) [OF names(3,4)])
       (auto simp: s2_def module_registered_def fun_eq_iff)
  ultimately show ?thesis by blast
qed

lemma module_lvar_twice_by_decorator:
  "decorate_addCNodeMethod ''CNodeExprVar'' None module_registered (Function ''lvar'' 4)
     = Some (Inr (Function ''lvar'' 4), module_lvar_twice)"
proof -
  have names: "globals module_registered ''_cnodeMethods'' = None"
    "\<not> shadowed module_registered [''isinstance'', ''property'']"
    by (simp_all add: module_registered_def module_loaded_def shadowed_def)
  show ?thesis
    by (simp add: addCNodeMethod_registers_by_name(1) [OF names])
       (auto simp: module_registered_def module_lvar_twice_def fun_eq_iff)
qed

lemmas run_defs = buildCNode_def module_loaded_def module_registered_def shadowed_def Let_def
  replace.simps type_new_def example_host_def install_methods_def

text \<open>
  C2, as the claim states it, fails, on classes that are not keys of \<open>_citem2cnode\<close> and
  whose bases all are. With the methods that \<open>cnode.py\<close> itself registers, the class
  generated from \<open>HxCExprCast\<close> has the attribute \<open>ignore_cast\<close>, which a copy of the
  dictionary of \<open>HxCExprCast\<close> has not. The class generated from a class named
  \<open>HxCExprHxC\<close> is named \<open>CNodeExprCNode\<close>, not \<open>CNodeExprHxC\<close>. For a class named
  \<open>_citem2cnode\<close> the new class is created and bound to that name in the globals, and the
  assignment \<open>_citem2cnode[cls] = cn_cls\<close> that follows raises \<open>TypeError\<close>: nothing is
  recorded, nothing is returned, and a later call of \<open>buildCNode\<close>, on \<open>HxCExprCast\<close>,
  raises \<open>TypeError\<close> as well. For \<open>object\<close>, which has no base, the new class has the base \<open>object\<close>, not
  the empty list of images. For a class with a slot, \<open>type\<close> rejects the copied
  attributes and no class is created. And when \<open>cls\<close> is itself the image of its base in
  \<open>_citem2cnode\<close>, the new class derives from \<open>cls\<close>, whose \<open>__subclasses__()\<close> changes.
\<close>

theorem buildCNode_copy_counterexample:
  "(case buildCNode example_host module_registered 8 of
      None \<Rightarrow> False
    | Some (r, s') \<Rightarrow>
        r = Inr 8
        \<and> cls_dict (classes module_registered 8) ''ignore_cast'' = None
        \<and> cls_dict (classes s' 13) ''ignore_cast'' = Some (Property (Function ''ignore_cast'' 3)))
   \<and> (case buildCNode example_host module_loaded 10 of
        None \<Rightarrow> False
      | Some (r, s') \<Rightarrow>
          r = Inr 10
          \<and> cls_name (classes module_loaded 10) = ''HxCExprHxC''
          \<and> cls_name (classes s' 13) = ''CNodeExprCNode'')
   \<and> (case buildCNode example_host module_loaded 11 of
        None \<Rightarrow> False
      | Some (r, s') \<Rightarrow>
          r = Inl TypeError
          \<and> cls_name (classes module_loaded 11) = ''_citem2cnode''
          \<and> next_class s' = 14
          \<and> globals s' ''_citem2cnode'' = Some 13
          \<and> citem2cnode s' 11 = None
          \<and> citem2cnode s' 8 = None
          \<and> buildCNode example_host s' 8 = Some (Inl TypeError, s'))
   \<and> (case buildCNode example_host module_loaded 0 of
        None \<Rightarrow> False
      | Some (r, s') \<Rightarrow>
          r = Inr 0
          \<and> cls_bases (classes module_loaded 0) = []
          \<and> cls_bases (classes s' 13) = [0])
   \<and> buildCNode example_host module_loaded 12 = Some (Inl ValueError, module_loaded)
   \<and> (case buildCNode example_host
               (module_loaded\<lparr>citem2cnode := (citem2cnode module_loaded)(3 \<mapsto> 8)\<rparr>) 8 of
        None \<Rightarrow> False
      | Some (r, s') \<Rightarrow>
          r = Inr 8
          \<and> cls_subclasses (classes module_loaded 8) = []
          \<and> cls_subclasses (classes s' 8) = [13])"
proof -
  have a: "(case buildCNode example_host module_registered 8 of
      None \<Rightarrow> False
    | Some (r, s') \<Rightarrow>
        r = Inr 8
        \<and> cls_dict (classes module_registered 8) ''ignore_cast'' = None
        \<and> cls_dict (classes s' 13) ''ignore_cast'' = Some (Property (Function ''ignore_cast'' 3)))"
    by (simp add: run_defs)
  have b: "(case buildCNode example_host module_loaded 10 of
        None \<Rightarrow> False
      | Some (r, s') \<Rightarrow>
          r = Inr 10
          \<and> cls_name (classes module_loaded 10) = ''HxCExprHxC''
          \<and> cls_name (classes s' 13) = ''CNodeExprCNode'')"
    by (simp add: run_defs)
  have c: "(case buildCNode example_host module_loaded 11 of
        None \<Rightarrow> False
      | Some (r, s') \<Rightarrow>
          r = Inl TypeError
          \<and> cls_name (classes module_loaded 11) = ''_citem2cnode''
          \<and> next_class s' = 14
          \<and> globals s' ''_citem2cnode'' = Some 13
          \<and> citem2cnode s' 11 = None
          \<and> citem2cnode s' 8 = None
          \<and> buildCNode example_host s' 8 = Some (Inl TypeError, s'))"
    by (simp add: run_defs)
  have d: "(case buildCNode example_host module_loaded 0 of
        None \<Rightarrow> False
      | Some (r, s') \<Rightarrow>
          r = Inr 0
          \<and> cls_bases (classes module_loaded 0) = []
          \<and> cls_bases (classes s' 13) = [0])"
    by (simp add: run_defs)
  have e: "buildCNode example_host module_loaded 12 = Some (Inl ValueError, module_loaded)"
    by (simp add: run_defs)
  have g: "(case buildCNode example_host
               (module_loaded\<lparr>citem2cnode := (citem2cnode module_loaded)(3 \<mapsto> 8)\<rparr>) 8 of
        None \<Rightarrow> False
      | Some (r, s') \<Rightarrow>
          r = Inr 8
          \<and> cls_subclasses (classes module_loaded 8) = []
          \<and> cls_subclasses (classes s' 8) = [13])"
    by (simp add: run_defs)
  from a b c d e g show ?thesis by (intro conjI)
qed

text \<open>
  C2, amended. Let the global names that \<open>buildCNode\<close> reads be bound as the load of the
  module left them, and let \<open>cls\<close> be a class that is not a key of \<open>_citem2cnode\<close>, that has
  at least one base, whose bases all are keys of \<open>_citem2cnode\<close>, with the list \<open>lb\<close> of
  their images, whose generated name is not \<open>_citem2cnode\<close>, and for which \<open>type\<close> accepts
  that name, the bases \<open>lb\<close> and the attributes below. Then \<open>buildCNode(cls)\<close> returns \<open>cls\<close>
  and creates one new class: its bases are \<open>lb\<close>, the images of the bases of \<open>cls\<close> in
  order; its attributes are those of \<open>cls\<close> with \<open>__module__\<close> and \<open>__doc__\<close> replaced and
  then the pairs registered in \<open>_cnodeMethods\<close> under the new name assigned in the order
  of registration; its name is \<open>CNode\<close> and the rest when the name of \<open>cls\<close> is \<open>HxC\<close> and a
  rest without \<open>HxC\<close>, and the name of \<open>cls\<close> when that holds no \<open>HxC\<close>. The new class is
  recorded in \<open>_citem2cnode\<close> under \<open>cls\<close> and in the globals under its name, and
  \<open>_cnodeMethods\<close> is left as it is. The name, the bases and the attributes of \<open>cls\<close> are
  not modified, and \<open>cls\<close> is not modified at all unless it is one of the images \<open>lb\<close>.
  When \<open>cls\<close> is a key of \<open>_citem2cnode\<close> or a base of \<open>cls\<close> is not, \<open>buildCNode(cls)\<close>
  raises \<open>AssertionError\<close> and changes nothing.
\<close>

theorem buildCNode_generates_class:
  fixes H s cls lb
  defines "nm \<equiv> replace ''HxC'' ''CNode'' (cls_name (classes s cls))"
  defines "copied \<equiv>
    (cls_dict (classes s cls))
      (''__module__'' \<mapsto> Str (cnode_module s),
       ''__doc__'' \<mapsto> Str (cnode_doc (cls_name (classes s cls))))"
  assumes intact: "module_intact s"
  shows
  "(citem2cnode s cls = None
      \<and> (\<forall>b \<in> set (cls_bases (classes s cls)). citem2cnode s b \<noteq> None)
      \<and> map (citem2cnode s) (cls_bases (classes s cls)) = map Some lb
      \<and> cls_bases (classes s cls) \<noteq> []
      \<and> type_check H (classes s) nm lb
           (install_methods (case cnodeMethods s nm of None \<Rightarrow> [] | Some l \<Rightarrow> l) copied) = None
      \<and> nm \<noteq> ''_citem2cnode'' \<longrightarrow>
      (\<exists>s'. buildCNode H s cls = Some (Inr cls, s')
         \<and> next_class s' = Suc (next_class s)
         \<and> cls_bases (classes s' (next_class s)) = lb
         \<and> cls_dict (classes s' (next_class s))
             = install_methods
                 (case cnodeMethods s (cls_name (classes s' (next_class s))) of
                    None \<Rightarrow> [] | Some l \<Rightarrow> l)
                 copied
         \<and> (\<forall>rest. cls_name (classes s cls) = ''HxC'' @ rest
                     \<and> (\<forall>i. take 3 (drop i rest) \<noteq> ''HxC'') \<longrightarrow>
                cls_name (classes s' (next_class s)) = ''CNode'' @ rest)
         \<and> ((\<forall>i. take 3 (drop i (cls_name (classes s cls))) \<noteq> ''HxC'') \<longrightarrow>
                cls_name (classes s' (next_class s)) = cls_name (classes s cls))
         \<and> citem2cnode s' = (citem2cnode s)(cls \<mapsto> next_class s)
         \<and> globals s' = (globals s)(cls_name (classes s' (next_class s)) \<mapsto> next_class s)
         \<and> cnodeMethods s' = cnodeMethods s
         \<and> (cls < next_class s \<longrightarrow>
               cls_name (classes s' cls) = cls_name (classes s cls)
               \<and> cls_bases (classes s' cls) = cls_bases (classes s cls)
               \<and> cls_dict (classes s' cls) = cls_dict (classes s cls))
         \<and> (cls < next_class s \<and> cls \<notin> set lb \<longrightarrow> classes s' cls = classes s cls)))
   \<and> (citem2cnode s cls \<noteq> None
        \<or> (\<exists>b \<in> set (cls_bases (classes s cls)). citem2cnode s b = None) \<longrightarrow>
        buildCNode H s cls = Some (Inl AssertionError, s))"
proof (intro conjI impI)
  assume "citem2cnode s cls \<noteq> None
          \<or> (\<exists>b \<in> set (cls_bases (classes s cls)). citem2cnode s b = None)"
  with intact show "buildCNode H s cls = Some (Inl AssertionError, s)"
    by (rule buildCNode_failure)
next
  define attr where
    "attr = install_methods (case cnodeMethods s nm of None \<Rightarrow> [] | Some l \<Rightarrow> l) copied"
  assume hyp: "citem2cnode s cls = None
      \<and> (\<forall>b \<in> set (cls_bases (classes s cls)). citem2cnode s b \<noteq> None)
      \<and> map (citem2cnode s) (cls_bases (classes s cls)) = map Some lb
      \<and> cls_bases (classes s cls) \<noteq> []
      \<and> type_check H (classes s) nm lb
           (install_methods (case cnodeMethods s nm of None \<Rightarrow> [] | Some l \<Rightarrow> l) copied) = None
      \<and> nm \<noteq> ''_citem2cnode''"
  then have notkey: "citem2cnode s cls = None"
    and bases: "\<forall>b \<in> set (cls_bases (classes s cls)). citem2cnode s b \<noteq> None"
    and images: "map (citem2cnode s) (cls_bases (classes s cls)) = map Some lb"
    and nonempty: "cls_bases (classes s cls) \<noteq> []"
    and accepted: "type_check H (classes s) nm lb attr = None"
    and name: "nm \<noteq> ''_citem2cnode''"
    by (simp_all add: attr_def)
  have lb: "map (\<lambda>b. the (citem2cnode s b)) (cls_bases (classes s cls)) = lb"
    using images by (rule images_of_bases)
  have lb_nonempty: "lb \<noteq> []"
    using nonempty lb by auto
  obtain r s1 where new: "type_new H s nm lb attr = (r, s1)"
    by (cases "type_new H s nm lb attr")
  note created = type_new_creates [OF accepted new]
  define s' where
    "s' = s1\<lparr>globals := (globals s)(nm \<mapsto> next_class s),
              citem2cnode := (citem2cnode s)(cls \<mapsto> next_class s)\<rparr>"
  have run: "buildCNode H s cls = Some (Inr cls, s')"
    using buildCNode_success [OF intact notkey bases, of H]
      accepted name new
    by (simp add: nm_def attr_def copied_def lb s'_def)
  have heap: "classes s' = classes s1"
    by (simp add: s'_def)
  have new_name: "cls_name (classes s' (next_class s)) = nm"
    using created(3) by (simp add: heap)
  have "next_class s' = Suc (next_class s)"
    using created(2) by (simp add: s'_def)
  moreover have "cls_bases (classes s' (next_class s)) = lb"
    using created(5) lb_nonempty by (simp add: heap)
  moreover have "cls_dict (classes s' (next_class s))
             = install_methods
                 (case cnodeMethods s (cls_name (classes s' (next_class s))) of
                    None \<Rightarrow> [] | Some l \<Rightarrow> l)
                 copied"
    using created(3,4) by (simp add: heap attr_def)
  moreover have "\<forall>rest. cls_name (classes s cls) = ''HxC'' @ rest
                     \<and> (\<forall>i. take 3 (drop i rest) \<noteq> ''HxC'') \<longrightarrow>
                cls_name (classes s' (next_class s)) = ''CNode'' @ rest"
    using replace_HxC_prefix by (simp only: new_name nm_def) metis
  moreover have "(\<forall>i. take 3 (drop i (cls_name (classes s cls))) \<noteq> ''HxC'') \<longrightarrow>
                cls_name (classes s' (next_class s)) = cls_name (classes s cls)"
  proof
    assume "\<forall>i. take 3 (drop i (cls_name (classes s cls))) \<noteq> ''HxC''"
    moreover have "length ''HxC'' = 3" by simp
    ultimately have "\<forall>i. take (length ''HxC'') (drop i (cls_name (classes s cls))) \<noteq> ''HxC''"
      by metis
    then have "replace ''HxC'' ''CNode'' (cls_name (classes s cls)) = cls_name (classes s cls)"
      by (intro replace_no_occurrence) simp_all
    then show "cls_name (classes s' (next_class s)) = cls_name (classes s cls)"
      by (simp add: new_name nm_def)
  qed
  moreover have "citem2cnode s' = (citem2cnode s)(cls \<mapsto> next_class s)"
    by (simp add: s'_def)
  moreover have "globals s' = (globals s)(cls_name (classes s' (next_class s)) \<mapsto> next_class s)"
    by (simp add: new_name) (simp add: s'_def)
  moreover have "cnodeMethods s' = cnodeMethods s"
    using created(8) by (simp add: s'_def)
  moreover have "cls < next_class s \<longrightarrow>
               cls_name (classes s' cls) = cls_name (classes s cls)
               \<and> cls_bases (classes s' cls) = cls_bases (classes s cls)
               \<and> cls_dict (classes s' cls) = cls_dict (classes s cls)"
    using created(10,11,12) [of cls] by (simp add: heap)
  moreover have "cls < next_class s \<and> cls \<notin> set lb \<longrightarrow> classes s' cls = classes s cls"
    using created(13) [of cls] lb_nonempty by (simp add: heap)
  ultimately show "\<exists>s'. buildCNode H s cls = Some (Inr cls, s')
         \<and> next_class s' = Suc (next_class s)
         \<and> cls_bases (classes s' (next_class s)) = lb
         \<and> cls_dict (classes s' (next_class s))
             = install_methods
                 (case cnodeMethods s (cls_name (classes s' (next_class s))) of
                    None \<Rightarrow> [] | Some l \<Rightarrow> l)
                 copied
         \<and> (\<forall>rest. cls_name (classes s cls) = ''HxC'' @ rest
                     \<and> (\<forall>i. take 3 (drop i rest) \<noteq> ''HxC'') \<longrightarrow>
                cls_name (classes s' (next_class s)) = ''CNode'' @ rest)
         \<and> ((\<forall>i. take 3 (drop i (cls_name (classes s cls))) \<noteq> ''HxC'') \<longrightarrow>
                cls_name (classes s' (next_class s)) = cls_name (classes s cls))
         \<and> citem2cnode s' = (citem2cnode s)(cls \<mapsto> next_class s)
         \<and> globals s' = (globals s)(cls_name (classes s' (next_class s)) \<mapsto> next_class s)
         \<and> cnodeMethods s' = cnodeMethods s
         \<and> (cls < next_class s \<longrightarrow>
               cls_name (classes s' cls) = cls_name (classes s cls)
               \<and> cls_bases (classes s' cls) = cls_bases (classes s cls)
               \<and> cls_dict (classes s' cls) = cls_dict (classes s cls))
         \<and> (cls < next_class s \<and> cls \<notin> set lb \<longrightarrow> classes s' cls = classes s cls)"
    using run by (intro exI [of _ s'] conjI)
qed

theorem buildCNode_generates_class_witness:
  "module_intact module_registered
   \<and> citem2cnode module_registered 8 = None
   \<and> map (citem2cnode module_registered) (cls_bases (classes module_registered 8)) = map Some [6]
   \<and> (case buildCNode example_host module_registered 8 of
        None \<Rightarrow> False
      | Some (r, s') \<Rightarrow>
          r = Inr 8
          \<and> cls_name (classes s' 13) = ''CNodeExprCast''
          \<and> cls_bases (classes s' 13) = [6]
          \<and> cls_dict (classes s' 13) ''TYPE_HANDLE'' = Some (Str ''cot_cast'')
          \<and> cls_dict (classes s' 13) ''__module__'' = Some (Str ''bip.hexrays.cnode'')
          \<and> cls_dict (classes s' 13) ''ignore_cast'' = Some (Property (Function ''ignore_cast'' 3))
          \<and> citem2cnode s' 8 = Some 13
          \<and> globals s' ''CNodeExprCast'' = Some 13
          \<and> classes s' 8 = classes module_registered 8)
   \<and> buildCNode example_host module_registered 3 = Some (Inl AssertionError, module_registered)
   \<and> buildCNode example_host module_registered 5 = Some (Inl AssertionError, module_registered)"
proof -
  note intact = module_registered_intact
  have notkey: "citem2cnode module_registered 8 = None"
    and bases: "\<forall>b \<in> set (cls_bases (classes module_registered 8)).
                  citem2cnode module_registered b \<noteq> None"
    and images: "map (citem2cnode module_registered) (cls_bases (classes module_registered 8))
                   = map Some [6]"
    and nonempty: "cls_bases (classes module_registered 8) \<noteq> []"
    and nxt: "next_class module_registered = 13"
    and below: "8 < next_class module_registered"
    and other: "8 \<notin> set [6::nat]"
    and old_name: "cls_name (classes module_registered 8) = ''HxC'' @ ''ExprCast''"
    and free: "\<forall>i. take 3 (drop i ''ExprCast'') \<noteq> ''HxC''"
    by (simp_all add: module_registered_def module_loaded_def drop_Cons' take_Cons')
  have nm: "replace ''HxC'' ''CNode'' (cls_name (classes module_registered 8)) = ''CNodeExprCast''"
    by (simp add: module_registered_def module_loaded_def replace.simps)
  have accepted: "type_check example_host (classes module_registered)
      (replace ''HxC'' ''CNode'' (cls_name (classes module_registered 8))) [6]
      (install_methods
         (case cnodeMethods module_registered
                 (replace ''HxC'' ''CNode'' (cls_name (classes module_registered 8))) of
            None \<Rightarrow> [] | Some l \<Rightarrow> l)
         ((cls_dict (classes module_registered 8))
            (''__module__'' \<mapsto> Str (cnode_module module_registered),
             ''__doc__'' \<mapsto> Str (cnode_doc (cls_name (classes module_registered 8)))))) = None"
    by (simp add: nm) (simp add: example_host_def module_registered_def module_loaded_def
          install_methods_def)
  have named: "replace ''HxC'' ''CNode'' (cls_name (classes module_registered 8)) \<noteq> ''_citem2cnode''"
    by (simp add: nm)
  have key3: "citem2cnode module_registered 3 \<noteq> None"
    and nobase5: "\<exists>b \<in> set (cls_bases (classes module_registered 5)).
                    citem2cnode module_registered b = None"
    by (simp_all add: module_registered_def module_loaded_def)
  note generated =
    buildCNode_generates_class [OF intact, of 8 "[6]" example_host, THEN conjunct1, rule_format,
      OF conjI [OF notkey conjI [OF bases conjI [OF images conjI [OF nonempty
           conjI [OF accepted named]]]]]]
  note raised3 =
    buildCNode_generates_class [OF intact, of 3 "[]" example_host, THEN conjunct2, rule_format,
      OF disjI1 [OF key3]]
  note raised5 =
    buildCNode_generates_class [OF intact, of 5 "[]" example_host, THEN conjunct2, rule_format,
      OF disjI2 [OF nobase5]]
  from generated obtain s' where run: "buildCNode example_host module_registered 8 = Some (Inr 8, s')"
    and new_bases: "cls_bases (classes s' (next_class module_registered)) = [6]"
    and new_dict: "cls_dict (classes s' (next_class module_registered))
             = install_methods
                 (case cnodeMethods module_registered
                         (cls_name (classes s' (next_class module_registered))) of
                    None \<Rightarrow> [] | Some l \<Rightarrow> l)
                 ((cls_dict (classes module_registered 8))
                    (''__module__'' \<mapsto> Str (cnode_module module_registered),
                     ''__doc__'' \<mapsto> Str (cnode_doc (cls_name (classes module_registered 8)))))"
    and new_name: "\<forall>rest. cls_name (classes module_registered 8) = ''HxC'' @ rest
                     \<and> (\<forall>i. take 3 (drop i rest) \<noteq> ''HxC'') \<longrightarrow>
                cls_name (classes s' (next_class module_registered)) = ''CNode'' @ rest"
    and keys: "citem2cnode s' = (citem2cnode module_registered)(8 \<mapsto> next_class module_registered)"
    and globs: "globals s' = (globals module_registered)
                  (cls_name (classes s' (next_class module_registered))
                     \<mapsto> next_class module_registered)"
    and same: "8 < next_class module_registered \<and> 8 \<notin> set [6::nat] \<longrightarrow>
                 classes s' 8 = classes module_registered 8"
    by blast
  have name13: "cls_name (classes s' 13) = ''CNodeExprCast''"
    using new_name old_name free by (simp add: nxt)
  have dict13: "cls_dict (classes s' 13) ''TYPE_HANDLE'' = Some (Str ''cot_cast'')"
    "cls_dict (classes s' 13) ''__module__'' = Some (Str ''bip.hexrays.cnode'')"
    "cls_dict (classes s' 13) ''ignore_cast'' = Some (Property (Function ''ignore_cast'' 3))"
    using new_dict
    by (simp_all add: nxt name13 module_registered_def module_loaded_def install_methods_def)
  show ?thesis
    using intact notkey images run new_bases name13 dict13 keys globs same below other
      raised3 raised5
    by (simp add: nxt)
qed

text \<open>
  C10, as the claim states it, fails. After \<open>lvar\<close> is registered twice for \<open>CNodeExprVar\<close>,
  the class generated from \<open>HxCExprVar\<close> has the function registered last as \<open>lvar\<close>: the
  pair registered first is not installed.
\<close>

theorem registered_pair_counterexample:
  "decorate_addCNodeMethod ''CNodeExprVar'' None module_registered (Function ''lvar'' 4)
     = Some (Inr (Function ''lvar'' 4), module_lvar_twice)
   \<and> cnodeMethods module_lvar_twice ''CNodeExprVar''
     = Some [(''lvar'', Property (Function ''lvar'' 1)),
             (''lvar_name'', Property (Function ''lvar_name'' 2)),
             (''lvar'', Function ''lvar'' 4)]
   \<and> (case buildCNode example_host module_lvar_twice 9 of
        None \<Rightarrow> False
      | Some (r, s') \<Rightarrow>
          r = Inr 9
          \<and> cls_name (classes s' (next_class module_lvar_twice)) = ''CNodeExprVar''
          \<and> cls_dict (classes s' (next_class module_lvar_twice)) ''lvar''
              = Some (Function ''lvar'' 4)
          \<and> cls_dict (classes s' (next_class module_lvar_twice)) ''lvar''
              \<noteq> Some (Property (Function ''lvar'' 1)))"
proof -
  have "cnodeMethods module_lvar_twice ''CNodeExprVar''
     = Some [(''lvar'', Property (Function ''lvar'' 1)),
             (''lvar_name'', Property (Function ''lvar_name'' 2)),
             (''lvar'', Function ''lvar'' 4)]"
    by (simp add: module_lvar_twice_def)
  moreover have "(case buildCNode example_host module_lvar_twice 9 of
        None \<Rightarrow> False
      | Some (r, s') \<Rightarrow>
          r = Inr 9
          \<and> cls_name (classes s' (next_class module_lvar_twice)) = ''CNodeExprVar''
          \<and> cls_dict (classes s' (next_class module_lvar_twice)) ''lvar''
              = Some (Function ''lvar'' 4)
          \<and> cls_dict (classes s' (next_class module_lvar_twice)) ''lvar''
              \<noteq> Some (Property (Function ''lvar'' 1)))"
    by (simp add: buildCNode_def module_loaded_def module_lvar_twice_def shadowed_def Let_def
          replace.simps type_new_def example_host_def install_methods_def)
  ultimately show ?thesis
    using module_lvar_twice_by_decorator by (intro conjI)
qed

text \<open>
  C10, amended. When \<open>buildCNode(cls)\<close> generates a class, which it has done when it
  returns, every pair of a name and a function registered with \<open>addCNodeMethod\<close> under
  the name of the generated class, and not followed by a later pair of the same name, is
  installed as that attribute of the generated class, whatever attribute of that name
  the dictionary of \<open>cls\<close> holds: of the pairs registered under one name, the last one is
  installed.
\<close>

theorem registered_methods_installed:
  assumes "buildCNode H s cls = Some (r, s')"
    and "(\<exists>c. r = Inr c) \<or> next_class s' = Suc (next_class s)"
    and "cnodeMethods s (cls_name (classes s' (next_class s))) = Some (pre @ (na, f) # post)"
    and "na \<notin> fst ` set post"
  shows "cls_dict (classes s' (next_class s)) na = Some f"
proof -
  have created: "next_class s' = Suc (next_class s)"
    using assms(1,2) buildCNode_returns_generated by blast
  note generated = buildCNode_generated [OF assms(1) created]
  have reg: "cnodeMethods s (replace ''HxC'' ''CNode'' (cls_name (classes s cls)))
               = Some (pre @ (na, f) # post)"
    using assms(3) by (simp add: generated(1))
  have "map_of (rev (pre @ (na, f) # post)) na = Some f"
    using assms(4) by (intro map_of_rev_last) simp_all
  then show ?thesis
    by (simp add: generated(2) reg install_methods_map_add del: rev_append rev.simps)
qed

theorem registered_methods_installed_witness:
  "(case buildCNode example_host module_registered 9 of
      None \<Rightarrow> False
    | Some (r, s') \<Rightarrow>
        r = Inr 9
        \<and> cnodeMethods module_registered (cls_name (classes s' (next_class module_registered)))
            = Some ([] @ (''lvar'', Property (Function ''lvar'' 1))
                      # [(''lvar_name'', Property (Function ''lvar_name'' 2))])
        \<and> ''lvar'' \<notin> fst ` set [(''lvar_name'', Property (Function ''lvar_name'' 2))]
        \<and> cls_dict (classes module_registered 9) ''lvar'' = Some (Function ''lvar'' 0)
        \<and> cls_dict (classes s' (next_class module_registered)) ''lvar''
            = Some (Property (Function ''lvar'' 1)))"
proof -
  obtain s' where run: "buildCNode example_host module_registered 9 = Some (Inr 9, s')"
    by (simp add: buildCNode_def module_loaded_def module_registered_def shadowed_def Let_def
          replace.simps type_new_def example_host_def install_methods_def)
  have returned: "(\<exists>c. (Inr 9 :: error + nat) = Inr c) \<or> next_class s' = Suc (next_class module_registered)"
    by simp
  have name: "cls_name (classes s' (next_class module_registered)) = ''CNodeExprVar''"
    using run
    by (auto simp: buildCNode_def module_loaded_def module_registered_def shadowed_def Let_def
          replace.simps type_new_def example_host_def install_methods_def)
  have reg: "cnodeMethods module_registered (cls_name (classes s' (next_class module_registered)))
            = Some ([] @ (''lvar'', Property (Function ''lvar'' 1))
                      # [(''lvar_name'', Property (Function ''lvar_name'' 2))])"
    by (simp add: name) (simp add: module_registered_def)
  have last: "''lvar'' \<notin> fst ` set [(''lvar_name'', Property (Function ''lvar_name'' 2))]"
    by simp
  have old: "cls_dict (classes module_registered 9) ''lvar'' = Some (Function ''lvar'' 0)"
    by (simp add: module_registered_def module_loaded_def)
  show ?thesis
    using reg last old registered_methods_installed [OF run returned reg last]
    by (simp add: run)
qed

end
